theory Spec2Isabelle
  imports Complex_Main
begin

section \<open>Booking lifecycle and offer allocation engine\<close>

text \<open>
  The database-side procedural logic of the repository (PL/pgSQL migrations) and the
  offer pages of the front end, embedded as HOL functions. Tables are lists of records,
  a nullable column is an \<open>option\<close>, a \<open>RAISE EXCEPTION\<close> is the \<open>Inl\<close> branch of
  a sum, and the ambient session (\<open>auth.uid()\<close>, \<open>now()\<close>) is an explicit argument.

  Where each function is taken from:
  \<^item> \<open>validate_status_transition\<close>, \<open>handle_status_transition\<close>:
    \<^verbatim>\<open>src/unnamed/part_015\<close> (the same text in
    \<^verbatim>\<open>20250317132736_divine_spring.sql\<close> and \<^verbatim>\<open>src/unnamed/part_023\<close>);
  \<^item> \<open>save_booking_offer\<close>: \<^verbatim>\<open>20250318140113_turquoise_crystal.sql\<close>;
  \<^item> \<open>update_booking_offer\<close>: \<^verbatim>\<open>20250318142413_morning_villa.sql\<close>
    (and \<^verbatim>\<open>src/unnamed/part_011\<close>);
  \<^item> \<open>validate_offer_for_send(p_offer_id)\<close> and the later \<open>send_booking_offer\<close>:
    the migration "Add Offer Workflow Handling", in the SQL that follows the component in
    \<^verbatim>\<open>src/src/App.tsx\<close>;
  \<^item> the first \<open>send_booking_offer\<close> and \<open>respond_to_offer\<close>:
    \<^verbatim>\<open>src/unnamed/part_016\<close>;
  \<^item> the trigger functions \<open>validate_offer_for_send()\<close> and
    \<open>update_inquiry_status_on_offer()\<close> with their triggers:
    \<^verbatim>\<open>src/unnamed/part_021\<close>;
  \<^item> the line rule of \<open>save_offer_allocations\<close>: \<^verbatim>\<open>src/unnamed/part_019\<close>;
  \<^item> \<open>loadInquiry\<close>: \<^verbatim>\<open>src/unnamed/part_004\<close>, the page mounted as
    \<^verbatim>\<open>./pages/admin/CreateOfferPage\<close>.

  Outside the model: the range of \<open>bigint\<close> (integers are unbounded here), foreign
  keys, row-level security (the functions are \<open>SECURITY DEFINER\<close>), and casts of
  \<open>jsonb\<close> text that fail (an element holds values of the types it is cast to).
  Triggers are functions of the old and the proposed row. \<open>send_booking_offer\<close> is
  modelled with the row triggers its statements fire; the other functions are their
  bodies.
\<close>

subsection \<open>Common types\<close>

type_synonym uuid = nat

text \<open>A \<open>timestamptz\<close> as microseconds since the epoch; the session time zone is UTC,
  so that \<open>interval '7 days'\<close> is seven times 24 hours.\<close>

type_synonym timestamptz = int

definition interval_7_days :: int where
  "interval_7_days = 7 * 24 * 60 * 60 * 1000000"

text \<open>The enum \<open>unified_status\<close> (\<open>booking_status\<close> in the sibling migrations), in the
  order of its declaration.\<close>

datatype unified_status =
    draft | submitted | under_review | offer_draft | offer_sent | changes_requested
  | accepted | rejected | cancelled | expired | confirmed | completed | archived

text \<open>The exceptions the functions raise. \<open>PermissionDenied\<close> is
  \<open>RAISE EXCEPTION 'Permission denied'\<close>; \<open>InvalidTransition\<close> is
  \<open>'Invalid status transition from % to %'\<close> with its two arguments; \<open>ValidationError\<close>
  and \<open>ReferentialError\<close> carry the message of the other \<open>RAISE EXCEPTION\<close>
  statements; \<open>NotNullViolation\<close> names the column of a violated \<open>NOT NULL\<close>.\<close>

datatype error =
    PermissionDenied
  | InvalidTransition unified_status unified_status
  | ValidationError string
  | ReferentialError string
  | NotNullViolation string

text \<open>The session: \<open>auth.uid()\<close> and the two tables the administrator check joins.\<close>

record session =
  auth_uid :: "uuid option"
  user_roles :: "(uuid \<times> uuid) list"
  roles :: "(uuid \<times> string) list"

text \<open>\<open>EXISTS (SELECT 1 FROM user_roles ur JOIN roles r ON r.id = ur.role_id
  WHERE ur.user_id = auth.uid() AND r.name = 'administrator')\<close>.\<close>

definition is_administrator :: "session \<Rightarrow> bool" where
  "is_administrator s =
     list_ex (\<lambda>(user_id, role_id).
        Some user_id = auth_uid s \<and>
        list_ex (\<lambda>(r_id, r_name). r_id = role_id \<and> r_name = ''administrator'') (roles s))
      (user_roles s)"

subsection \<open>Status machine (\<open>validate_status_transition\<close>, \<open>handle_status_transition\<close>)\<close>

fun validate_status_transition :: "unified_status \<Rightarrow> unified_status \<Rightarrow> bool \<Rightarrow> bool" where
  "validate_status_transition old_status new_status is_admin =
     (if old_status = new_status then True
      else if is_admin then
        (case old_status of
           submitted \<Rightarrow> new_status \<in> {under_review, cancelled}
         | under_review \<Rightarrow> new_status \<in> {offer_draft, cancelled}
         | offer_draft \<Rightarrow> new_status \<in> {offer_sent, cancelled}
         | changes_requested \<Rightarrow> new_status \<in> {offer_draft, cancelled}
         | accepted \<Rightarrow> new_status \<in> {confirmed, cancelled}
         | confirmed \<Rightarrow> new_status \<in> {completed, cancelled}
         | completed \<Rightarrow> new_status = archived
         | _ \<Rightarrow> False)
      else
        (case old_status of
           draft \<Rightarrow> new_status \<in> {submitted, cancelled}
         | offer_sent \<Rightarrow> new_status \<in> {accepted, rejected, changes_requested}
         | _ \<Rightarrow> False))"

text \<open>The row of \<open>booking_inquiries\<close> as far as the trigger reads and writes it.\<close>

record status_row =
  status :: unified_status
  valid_until :: "timestamptz option"
  updated_at :: timestamptz

text \<open>The \<open>BEFORE UPDATE OF status\<close> trigger function: \<open>OLD\<close> and \<open>NEW\<close> are the
  row before the statement and the row it proposes; the result is the row that is
  written, or the exception that aborts the statement.\<close>

definition handle_status_transition ::
    "session \<Rightarrow> timestamptz \<Rightarrow> status_row \<Rightarrow> status_row \<Rightarrow> error + status_row" where
  "handle_status_transition s now OLD NEW =
     (let v_is_admin = is_administrator s in
      if \<not> validate_status_transition (status OLD) (status NEW) v_is_admin
      then Inl (InvalidTransition (status OLD) (status NEW))
      else
        let NEW1 = (case status NEW of
                      offer_sent \<Rightarrow> NEW\<lparr>valid_until := Some (now + interval_7_days)\<rparr>
                    | expired \<Rightarrow> NEW\<lparr>valid_until := None\<rparr>
                    | _ \<Rightarrow> NEW)
        in Inr (NEW1\<lparr>updated_at := now\<rparr>))"

text \<open>The transition table as the specification words it: the moves open to an
  administrator and those open to a trader.\<close>

definition admin_moves :: "(unified_status \<times> unified_status) list" where
  "admin_moves =
     [(submitted, under_review), (submitted, cancelled),
      (under_review, offer_draft), (under_review, cancelled),
      (offer_draft, offer_sent), (offer_draft, cancelled),
      (changes_requested, offer_draft), (changes_requested, cancelled),
      (accepted, confirmed), (accepted, cancelled),
      (confirmed, completed), (confirmed, cancelled),
      (completed, archived)]"

definition trader_moves :: "(unified_status \<times> unified_status) list" where
  "trader_moves =
     [(draft, submitted), (draft, cancelled),
      (offer_sent, accepted), (offer_sent, rejected), (offer_sent, changes_requested)]"

definition in_transition_table :: "unified_status \<Rightarrow> unified_status \<Rightarrow> bool \<Rightarrow> bool" where
  "in_transition_table old new is_admin =
     List.member (if is_admin then admin_moves else trader_moves) (old, new)"


subsection \<open>Tables of the offer subsystem\<close>

text \<open>
  Each table is the list of its rows, with the columns the functions below read or
  write. Primary keys are unique in a given state, so that a lookup by \<open>id\<close> finds
  the one row there is. \<open>numeric\<close> is \<open>rat\<close>, \<open>bigint\<close> and \<open>integer\<close> are
  \<open>int\<close>. The type variable \<open>'st\<close> is the type of the status columns: \<open>text\<close>
  (\<open>string\<close>) in the migration that introduces \<open>respond_to_offer\<close>, the enum
  \<open>unified_status\<close> in the later ones.
\<close>

text \<open>\<open>bi_valid_until\<close> is the column \<open>valid_until\<close> that the status trigger on
  \<open>booking_inquiries\<close> assigns.\<close>

record 'st booking_inquiry =
  bi_id :: uuid
  bi_trader_id :: uuid
  bi_status :: 'st
  bi_estimated_cost_cents :: "int option"
  bi_valid_until :: "timestamptz option"
  bi_updated_at :: timestamptz

record space_request =
  sr_inquiry_id :: uuid
  sr_size_m2 :: rat

record 'st booking_offer =
  bo_id :: uuid
  bo_inquiry_id :: uuid
  bo_admin_id :: "uuid option"
  bo_status :: 'st
  bo_total_cost_cents :: int
  bo_valid_until :: timestamptz
  bo_notes :: "string option"
  bo_updated_at :: timestamptz

record booking_offer_space =
  bos_offer_id :: uuid
  bos_space_id :: uuid
  bos_space_allocated_m2 :: rat
  bos_price_per_m2_cents :: int
  bos_offer_total_cents :: int
  bos_is_manual_price :: bool
  bos_comments :: "string option"

datatype pricing_type = hourly_rate | per_unit | fixed | ask_quote

record booking_offer_service =
  bsv_offer_id :: uuid
  bsv_service_id :: uuid
  bsv_pricing_type :: pricing_type
  bsv_quantity :: "rat option"
  bsv_price_per_hour_cents :: "int option"
  bsv_price_per_unit_cents :: "int option"
  bsv_unit_type :: "string option"
  bsv_fixed_price_cents :: "int option"
  bsv_offer_total_cents :: "int option"
  bsv_comments :: "string option"

record booking_offer_term =
  bt_offer_id :: uuid
  bt_term_type :: string
  bt_description :: string

text \<open>
  \<open>offer_summaries\<close> exists in two generations. The table that
  \<open>save_booking_offer\<close> and \<open>update_booking_offer\<close> insert into
  (\<^verbatim>\<open>20250316121849_sunny_lodge.sql\<close>) has no \<open>inquiry_id\<close> and declares
  \<open>actual_offer_cents bigint NOT NULL DEFAULT 0\<close>; the later one
  (\<^verbatim>\<open>20250317134739_rustic_firefly.sql\<close>) has \<open>inquiry_id NOT NULL\<close> and a
  nullable \<open>actual_offer_cents\<close>, which the send trigger reads. The record carries
  both columns as options; a row of the first generation has \<open>os_inquiry_id = None\<close>
  and a non-null \<open>os_actual_offer_cents\<close>.
\<close>

record offer_summary =
  os_offer_id :: uuid
  os_inquiry_id :: "uuid option"
  os_quoted_price_cents :: int
  os_calculated_price_cents :: "int option"
  os_actual_offer_cents :: "int option"
  os_space_total_cents :: int
  os_services_total_cents :: int
  os_updated_at :: timestamptz

record booking =
  bk_inquiry_id :: uuid
  bk_offer_id :: uuid
  bk_status :: string
  bk_created_at :: timestamptz
  bk_updated_at :: timestamptz

record notification =
  n_user_id :: uuid
  n_type :: string
  n_title :: string
  n_message :: string
  n_inquiry_id :: "uuid option"

record 'st db =
  booking_inquiries :: "'st booking_inquiry list"
  booking_inquiry_space_requests :: "space_request list"
  booking_offers :: "'st booking_offer list"
  booking_offer_spaces :: "booking_offer_space list"
  booking_offer_services :: "booking_offer_service list"
  booking_offer_terms :: "booking_offer_term list"
  offer_summaries :: "offer_summary list"
  bookings :: "booking list"
  notifications :: "notification list"
  m_warehouse_spaces :: "uuid list"
  warehouse_services :: "uuid list"

text \<open>The elements of the \<open>jsonb\<close> arrays \<open>p_spaces\<close>, \<open>p_services\<close> and
  \<open>p_terms\<close>: a key that is absent or \<open>null\<close> is \<open>None\<close>, a key that is present
  holds a value of the type the function casts it to.\<close>

record space_json =
  j_space_id :: "uuid option"
  j_space_allocated_m2 :: "rat option"
  j_price_per_m2_cents :: "int option"
  j_offer_total_cents :: "int option"
  j_is_manual_price :: "bool option"
  j_comments :: "string option"

record service_json =
  js_service_id :: "uuid option"
  js_pricing_type :: "pricing_type option"
  js_quantity :: "rat option"
  js_price_per_hour_cents :: "int option"
  js_price_per_unit_cents :: "int option"
  js_unit_type :: "string option"
  js_fixed_price_cents :: "int option"
  js_offer_total_cents :: "int option"
  js_comments :: "string option"

record term_json =
  jt_term_type :: "string option"
  jt_description :: "string option"

definition COALESCE :: "'a option \<Rightarrow> 'a \<Rightarrow> 'a" where
  "COALESCE x d = (case x of None \<Rightarrow> d | Some v \<Rightarrow> v)"

definition NULLIF :: "'a option \<Rightarrow> 'a \<Rightarrow> 'a option" where
  "NULLIF x z = (if x = Some z then None else x)"

text \<open>\<open>SELECT ... FROM booking_offers bo JOIN booking_inquiries bi ON bi.id =
  bo.inquiry_id WHERE bo.id = p_offer_id\<close>: the joined row, if there is one.\<close>

definition offer_with_inquiry ::
    "'st db \<Rightarrow> uuid \<Rightarrow> ('st booking_offer \<times> 'st booking_inquiry) option" where
  "offer_with_inquiry d p_offer_id =
     (case find (\<lambda>bo. bo_id bo = p_offer_id) (booking_offers d) of
        None \<Rightarrow> None
      | Some bo \<Rightarrow>
          (case find (\<lambda>bi. bi_id bi = bo_inquiry_id bo) (booking_inquiries d) of
             None \<Rightarrow> None
           | Some bi \<Rightarrow> Some (bo, bi)))"

text \<open>An exception aborts the statement and its transaction: the tables keep the
  state they had before the call. \<open>state_of\<close> reads the new state off a result.\<close>

definition state_after :: "'d \<Rightarrow> ('a \<Rightarrow> 'd) \<Rightarrow> error + 'a \<Rightarrow> 'd" where
  "state_after before state_of r = (case r of Inl e \<Rightarrow> before | Inr x \<Rightarrow> state_of x)"

subsection \<open>Creating a draft: \<open>save_booking_offer\<close>\<close>

text \<open>The three loops over the \<open>jsonb\<close> arrays. Each takes the rows of its table
  and the running total and returns them extended, or the exception of the first
  element that fails its check. \<open>space_row\<close> and \<open>service_row\<close> are the rows the
  \<open>INSERT\<close> statements of the loops build from an element.\<close>

definition space_row :: "uuid \<Rightarrow> uuid \<Rightarrow> space_json \<Rightarrow> booking_offer_space" where
  "space_row v_offer_id space_id v_space =
     \<lparr>bos_offer_id = v_offer_id,
      bos_space_id = space_id,
      bos_space_allocated_m2 = COALESCE (j_space_allocated_m2 v_space) 0,
      bos_price_per_m2_cents = COALESCE (j_price_per_m2_cents v_space) 0,
      bos_offer_total_cents = COALESCE (j_offer_total_cents v_space) 0,
      bos_is_manual_price = COALESCE (j_is_manual_price v_space) False,
      bos_comments = j_comments v_space\<rparr>"

fun save_spaces_loop ::
    "uuid \<Rightarrow> space_json list \<Rightarrow> booking_offer_space list \<Rightarrow> int
      \<Rightarrow> error + (booking_offer_space list \<times> int)" where
  "save_spaces_loop v_offer_id [] rows v_space_total = Inr (rows, v_space_total)"
| "save_spaces_loop v_offer_id (v_space # rest) rows v_space_total =
     (case j_space_id v_space of
        None \<Rightarrow> Inl (ValidationError ''space_id is required for space allocations'')
      | Some space_id \<Rightarrow>
          save_spaces_loop v_offer_id rest
            (rows @ [space_row v_offer_id space_id v_space])
            (v_space_total + COALESCE (j_offer_total_cents v_space) 0))"

definition service_row :: "uuid \<Rightarrow> uuid \<Rightarrow> service_json \<Rightarrow> booking_offer_service" where
  "service_row v_offer_id service_id v_service =
     \<lparr>bsv_offer_id = v_offer_id,
      bsv_service_id = service_id,
      bsv_pricing_type = COALESCE (js_pricing_type v_service) ask_quote,
      bsv_quantity = NULLIF (js_quantity v_service) 0,
      bsv_price_per_hour_cents = NULLIF (js_price_per_hour_cents v_service) 0,
      bsv_price_per_unit_cents = NULLIF (js_price_per_unit_cents v_service) 0,
      bsv_unit_type = js_unit_type v_service,
      bsv_fixed_price_cents = NULLIF (js_fixed_price_cents v_service) 0,
      bsv_offer_total_cents = Some (COALESCE (js_offer_total_cents v_service) 0),
      bsv_comments = js_comments v_service\<rparr>"

fun save_services_loop ::
    "uuid \<Rightarrow> service_json list \<Rightarrow> booking_offer_service list \<Rightarrow> int
      \<Rightarrow> error + (booking_offer_service list \<times> int)" where
  "save_services_loop v_offer_id [] rows v_services_total = Inr (rows, v_services_total)"
| "save_services_loop v_offer_id (v_service # rest) rows v_services_total =
     (case js_service_id v_service of
        None \<Rightarrow> Inl (ValidationError ''service_id is required for service allocations'')
      | Some service_id \<Rightarrow>
          save_services_loop v_offer_id rest
            (rows @ [service_row v_offer_id service_id v_service])
            (v_services_total + COALESCE (js_offer_total_cents v_service) 0))"

fun terms_loop ::
    "uuid \<Rightarrow> term_json list \<Rightarrow> booking_offer_term list \<Rightarrow> error + booking_offer_term list" where
  "terms_loop v_offer_id [] rows = Inr rows"
| "terms_loop v_offer_id (v_term # rest) rows =
     (case (jt_term_type v_term, jt_description v_term) of
        (Some term_type, Some description) \<Rightarrow>
          terms_loop v_offer_id rest
            (rows @ [\<lparr>bt_offer_id = v_offer_id, bt_term_type = term_type,
                      bt_description = description\<rparr>])
      | _ \<Rightarrow> Inl (ValidationError ''term_type and description are required for terms''))"

text \<open>
  \<open>save_booking_offer\<close> of the migration "Fix JSON Handling in Database Functions".
  \<open>v_offer_id\<close> is the fresh id the \<open>INSERT ... RETURNING id\<close> yields. The columns
  \<open>total_cost_cents\<close> and \<open>valid_until\<close> of \<open>booking_offers\<close> are \<open>NOT NULL\<close>.
\<close>

definition save_booking_offer ::
    "session \<Rightarrow> timestamptz \<Rightarrow> uuid \<Rightarrow> unified_status db \<Rightarrow> uuid \<Rightarrow> int option
      \<Rightarrow> timestamptz option \<Rightarrow> string option \<Rightarrow> space_json list option
      \<Rightarrow> service_json list option \<Rightarrow> term_json list option
      \<Rightarrow> error + (uuid \<times> unified_status db)" where
  "save_booking_offer s now v_offer_id d p_inquiry_id p_total_cost_cents p_valid_until p_notes
      p_spaces p_services p_terms =
     (if \<not> is_administrator s then Inl PermissionDenied
      else
        let v_inquiry_estimated_cost =
              (case find (\<lambda>bi. bi_id bi = p_inquiry_id) (booking_inquiries d) of
                 None \<Rightarrow> None | Some bi \<Rightarrow> bi_estimated_cost_cents bi)
        in
        case p_total_cost_cents of
          None \<Rightarrow> Inl (NotNullViolation ''total_cost_cents'')
        | Some total_cost \<Rightarrow>
        case p_valid_until of
          None \<Rightarrow> Inl (NotNullViolation ''valid_until'')
        | Some until \<Rightarrow>
        let offer = \<lparr>bo_id = v_offer_id, bo_inquiry_id = p_inquiry_id,
                     bo_admin_id = auth_uid s, bo_status = draft,
                     bo_total_cost_cents = total_cost, bo_valid_until = until,
                     bo_notes = p_notes, bo_updated_at = now\<rparr>
        in
        case (case p_spaces of
                None \<Rightarrow> Inr (booking_offer_spaces d, 0)
              | Some spaces \<Rightarrow> save_spaces_loop v_offer_id spaces (booking_offer_spaces d) 0) of
          Inl e \<Rightarrow> Inl e
        | Inr (spaces', v_space_total) \<Rightarrow>
        case (case p_services of
                None \<Rightarrow> Inr (booking_offer_services d, 0)
              | Some services \<Rightarrow>
                  save_services_loop v_offer_id services (booking_offer_services d) 0) of
          Inl e \<Rightarrow> Inl e
        | Inr (services', v_services_total) \<Rightarrow>
        case (case p_terms of
                None \<Rightarrow> Inr (booking_offer_terms d)
              | Some terms \<Rightarrow> terms_loop v_offer_id terms (booking_offer_terms d)) of
          Inl e \<Rightarrow> Inl e
        | Inr terms' \<Rightarrow>
        Inr (v_offer_id,
             d\<lparr>booking_offers := booking_offers d @ [offer],
               booking_offer_spaces := spaces',
               booking_offer_services := services',
               booking_offer_terms := terms',
               offer_summaries := offer_summaries d @
                 [\<lparr>os_offer_id = v_offer_id,
                   os_inquiry_id = None,
                   os_quoted_price_cents = COALESCE v_inquiry_estimated_cost 0,
                   os_calculated_price_cents = Some (v_space_total + v_services_total),
                   os_actual_offer_cents = Some total_cost,
                   os_space_total_cents = v_space_total,
                   os_services_total_cents = v_services_total,
                   os_updated_at = now\<rparr>]\<rparr>))"

subsection \<open>Replacing a draft: \<open>update_booking_offer\<close>\<close>

text \<open>The loops of \<open>update_booking_offer\<close> check in addition that the space and
  the service exist.\<close>

fun update_spaces_loop ::
    "uuid list \<Rightarrow> uuid \<Rightarrow> space_json list \<Rightarrow> booking_offer_space list \<Rightarrow> int
      \<Rightarrow> error + (booking_offer_space list \<times> int)" where
  "update_spaces_loop spaces_tbl p_offer_id [] rows v_space_total = Inr (rows, v_space_total)"
| "update_spaces_loop spaces_tbl p_offer_id (v_space # rest) rows v_space_total =
     (case j_space_id v_space of
        None \<Rightarrow> Inl (ValidationError ''space_id is required for space allocations'')
      | Some space_id \<Rightarrow>
          let v_space_exists = list_ex (\<lambda>i. i = space_id) spaces_tbl in
          if \<not> v_space_exists then Inl (ReferentialError ''Space with ID % does not exist'')
          else
            update_spaces_loop spaces_tbl p_offer_id rest
              (rows @ [space_row p_offer_id space_id v_space])
              (v_space_total + COALESCE (j_offer_total_cents v_space) 0))"

fun update_services_loop ::
    "uuid list \<Rightarrow> uuid \<Rightarrow> service_json list \<Rightarrow> booking_offer_service list \<Rightarrow> int
      \<Rightarrow> error + (booking_offer_service list \<times> int)" where
  "update_services_loop services_tbl p_offer_id [] rows v_services_total =
     Inr (rows, v_services_total)"
| "update_services_loop services_tbl p_offer_id (v_service # rest) rows v_services_total =
     (case js_service_id v_service of
        None \<Rightarrow> Inl (ValidationError ''service_id is required for service allocations'')
      | Some service_id \<Rightarrow>
          if \<not> list_ex (\<lambda>i. i = service_id) services_tbl
          then Inl (ReferentialError ''Service with ID % does not exist'')
          else
            update_services_loop services_tbl p_offer_id rest
              (rows @ [service_row p_offer_id service_id v_service])
              (v_services_total + COALESCE (js_offer_total_cents v_service) 0))"

text \<open>\<open>INSERT INTO offer_summaries ... ON CONFLICT (offer_id) DO UPDATE SET ...\<close> of
  \<open>update_booking_offer\<close>.\<close>

definition upsert_summary ::
    "timestamptz \<Rightarrow> uuid \<Rightarrow> int \<Rightarrow> int \<Rightarrow> int \<Rightarrow> int option
      \<Rightarrow> offer_summary list \<Rightarrow> offer_summary list" where
  "upsert_summary now p_offer_id quoted v_space_total v_services_total actual summaries =
     (if list_ex (\<lambda>os. os_offer_id os = p_offer_id) summaries
      then map (\<lambda>os. if os_offer_id os = p_offer_id
                      then os\<lparr>os_calculated_price_cents := Some (v_space_total + v_services_total),
                              os_actual_offer_cents := actual,
                              os_space_total_cents := v_space_total,
                              os_services_total_cents := v_services_total,
                              os_updated_at := now\<rparr>
                      else os) summaries
      else summaries @
           [\<lparr>os_offer_id = p_offer_id,
             os_inquiry_id = None,
             os_quoted_price_cents = quoted,
             os_calculated_price_cents = Some (v_space_total + v_services_total),
             os_actual_offer_cents = actual,
             os_space_total_cents = v_space_total,
             os_services_total_cents = v_services_total,
             os_updated_at = now\<rparr>])"

text \<open>
  \<open>update_booking_offer\<close> of the migration "Update Booking Offer Function" (the
  earlier revision differs by its debug logging only). The \<open>UPDATE\<close> of the header
  violates \<open>NOT NULL\<close> when it finds the row and a parameter is null.
\<close>

definition update_booking_offer ::
    "session \<Rightarrow> timestamptz \<Rightarrow> 'st db \<Rightarrow> uuid \<Rightarrow> int option
      \<Rightarrow> timestamptz option \<Rightarrow> string option \<Rightarrow> space_json list option
      \<Rightarrow> service_json list option \<Rightarrow> term_json list option
      \<Rightarrow> error + (bool \<times> 'st db)" where
  "update_booking_offer s now d p_offer_id p_total_cost_cents p_valid_until p_notes
      p_spaces p_services p_terms =
     (if \<not> is_administrator s then Inl PermissionDenied
      else
        let v_inquiry_estimated_cost =
              (case offer_with_inquiry d p_offer_id of
                 None \<Rightarrow> None | Some (bo, bi) \<Rightarrow> bi_estimated_cost_cents bi);
            row_found = list_ex (\<lambda>bo. bo_id bo = p_offer_id) (booking_offers d)
        in
        case (if \<not> row_found then Inr (booking_offers d)
              else
                case p_total_cost_cents of
                  None \<Rightarrow> Inl (NotNullViolation ''total_cost_cents'')
                | Some total_cost \<Rightarrow>
                case p_valid_until of
                  None \<Rightarrow> Inl (NotNullViolation ''valid_until'')
                | Some until \<Rightarrow>
                  Inr (map (\<lambda>bo. if bo_id bo = p_offer_id
                                 then bo\<lparr>bo_total_cost_cents := total_cost,
                                         bo_valid_until := until,
                                         bo_notes := p_notes,
                                         bo_updated_at := now\<rparr>
                                 else bo) (booking_offers d))) of
          Inl e \<Rightarrow> Inl e
        | Inr offers' \<Rightarrow>
        let spaces0 = filter (\<lambda>r. bos_offer_id r \<noteq> p_offer_id) (booking_offer_spaces d);
            services0 = filter (\<lambda>r. bsv_offer_id r \<noteq> p_offer_id) (booking_offer_services d);
            terms0 = filter (\<lambda>r. bt_offer_id r \<noteq> p_offer_id) (booking_offer_terms d)
        in
        case (case p_spaces of
                None \<Rightarrow> Inr (spaces0, 0)
              | Some spaces \<Rightarrow>
                  update_spaces_loop (m_warehouse_spaces d) p_offer_id spaces spaces0 0) of
          Inl e \<Rightarrow> Inl e
        | Inr (spaces', v_space_total) \<Rightarrow>
        case (case p_services of
                None \<Rightarrow> Inr (services0, 0)
              | Some services \<Rightarrow>
                  update_services_loop (warehouse_services d) p_offer_id services services0 0) of
          Inl e \<Rightarrow> Inl e
        | Inr (services', v_services_total) \<Rightarrow>
        case (case p_terms of
                None \<Rightarrow> Inr terms0
              | Some terms \<Rightarrow> terms_loop p_offer_id terms terms0) of
          Inl e \<Rightarrow> Inl e
        | Inr terms' \<Rightarrow>
        Inr (True,
             d\<lparr>booking_offers := offers',
               booking_offer_spaces := spaces',
               booking_offer_services := services',
               booking_offer_terms := terms',
               offer_summaries :=
                 upsert_summary now p_offer_id (COALESCE v_inquiry_estimated_cost 0)
                   v_space_total v_services_total p_total_cost_cents (offer_summaries d)\<rparr>))"

subsection \<open>The send validation: \<open>validate_offer_for_send(p_offer_id)\<close>\<close>

text \<open>
  The validation of the migration "Add Offer Workflow Handling". The aggregate over
  \<open>booking_offer_spaces\<close> counts and sums the rows of the offer whose
  \<open>space_allocated_m2\<close> is positive.
\<close>

definition unpriced_service :: "booking_offer_service \<Rightarrow> bool" where
  "unpriced_service sv =
     (bsv_pricing_type sv \<noteq> ask_quote \<and>
      ((bsv_pricing_type sv = hourly_rate \<and> bsv_price_per_hour_cents sv = None) \<or>
       (bsv_pricing_type sv = per_unit \<and>
          (bsv_price_per_unit_cents sv = None \<or> bsv_unit_type sv = None)) \<or>
       (bsv_pricing_type sv = fixed \<and> bsv_fixed_price_cents sv = None)))"

definition total_allocated :: "'st db \<Rightarrow> uuid \<Rightarrow> rat" where
  "total_allocated d p_offer_id =
     sum_list (map bos_space_allocated_m2
       (filter (\<lambda>r. bos_offer_id r = p_offer_id \<and> bos_space_allocated_m2 r > 0)
          (booking_offer_spaces d)))"

definition total_requested :: "'st db \<Rightarrow> uuid option \<Rightarrow> rat" where
  "total_requested d v_inquiry_id =
     sum_list (map sr_size_m2
       (filter (\<lambda>r. Some (sr_inquiry_id r) = v_inquiry_id)
          (booking_inquiry_space_requests d)))"

text \<open>\<open>SELECT inquiry_id INTO v_inquiry_id FROM booking_offers WHERE id = p_offer_id\<close>.\<close>

definition offer_inquiry_id :: "'st db \<Rightarrow> uuid \<Rightarrow> uuid option" where
  "offer_inquiry_id d p_offer_id =
     map_option bo_inquiry_id (find (\<lambda>bo. bo_id bo = p_offer_id) (booking_offers d))"

definition validate_offer_for_send_uuid :: "'st db \<Rightarrow> uuid \<Rightarrow> error + bool" where
  "validate_offer_for_send_uuid d p_offer_id =
     (let v_inquiry_id = offer_inquiry_id d p_offer_id;
          v_space_count = length (filter (\<lambda>r. bos_offer_id r = p_offer_id
                                              \<and> bos_space_allocated_m2 r > 0)
                                     (booking_offer_spaces d));
          v_total_allocated = total_allocated d p_offer_id;
          v_total_requested = total_requested d v_inquiry_id
      in
      if v_space_count = 0
      then Inl (ValidationError ''At least one space must be allocated'')
      else if v_total_allocated < v_total_requested
      then Inl (ValidationError
                  ''Total allocated space (%) must meet or exceed requested space (%)'')
      else if list_ex (\<lambda>sv. bsv_offer_id sv = p_offer_id \<and> unpriced_service sv)
                (booking_offer_services d)
      then Inl (ValidationError ''All services must have proper pricing set'')
      else if \<not> list_ex (\<lambda>bo. bo_id bo = p_offer_id \<and> bo_total_cost_cents bo > 0)
                  (booking_offers d)
      then Inl (ValidationError ''Total cost must be set'')
      else Inr True)"

subsection \<open>The first revision of the offer functions (status as \<open>text\<close>)\<close>

text \<open>
  The migration "Update Offer Schema and Functions" declares the status of an offer as
  \<open>text\<close>, one of \<open>'draft'\<close>, \<open>'sent'\<close>, \<open>'accepted'\<close>, \<open>'rejected'\<close>,
  \<open>'expired'\<close>. Its \<open>send_booking_offer\<close> is the first revision of the function
  below; its \<open>respond_to_offer\<close> is the only one. \<open>FOUND\<close> is true when the last
  statement touched a row. The parameter \<open>p_action\<close> is \<open>text\<close> and may be null: the
  test \<open>p_action NOT IN (...)\<close> is then null and the \<open>IF\<close> is not taken.
\<close>

definition send_booking_offer_first ::
    "session \<Rightarrow> timestamptz \<Rightarrow> string db \<Rightarrow> uuid \<Rightarrow> error + (bool \<times> string db)" where
  "send_booking_offer_first s now d p_offer_id =
     (if \<not> is_administrator s then Inl PermissionDenied
      else
        let FOUND = list_ex (\<lambda>bo. bo_id bo = p_offer_id \<and> bo_status bo = ''draft'')
                      (booking_offers d)
        in Inr (FOUND,
                d\<lparr>booking_offers :=
                    map (\<lambda>bo. if bo_id bo = p_offer_id \<and> bo_status bo = ''draft''
                               then bo\<lparr>bo_status := ''sent'', bo_updated_at := now\<rparr>
                               else bo) (booking_offers d)\<rparr>))"

definition owns_inquiry_of_offer :: "session \<Rightarrow> 'st db \<Rightarrow> uuid \<Rightarrow> bool" where
  "owns_inquiry_of_offer s d p_offer_id =
     list_ex (\<lambda>bo. bo_id bo = p_offer_id \<and>
                list_ex (\<lambda>bi. bi_id bi = bo_inquiry_id bo \<and> Some (bi_trader_id bi) = auth_uid s)
                  (booking_inquiries d))
       (booking_offers d)"

definition respond_to_offer ::
    "session \<Rightarrow> timestamptz \<Rightarrow> string db \<Rightarrow> uuid \<Rightarrow> string option
      \<Rightarrow> error + (bool \<times> string db)" where
  "respond_to_offer s now d p_offer_id p_action =
     (if (case p_action of None \<Rightarrow> False | Some a \<Rightarrow> a \<notin> {''accept'', ''reject''})
      then Inl (ValidationError ''Invalid action. Must be either accept or reject'')
      else if \<not> owns_inquiry_of_offer s d p_offer_id then Inl PermissionDenied
      else
        let new_status = (if p_action = Some ''accept'' then Some ''accepted''
                          else if p_action = Some ''reject'' then Some ''rejected''
                          else None);
            FOUND = list_ex (\<lambda>bo. bo_id bo = p_offer_id \<and> bo_status bo = ''sent'')
                      (booking_offers d)
        in
        case new_status of
          None \<Rightarrow> if FOUND then Inl (NotNullViolation ''status'') else Inr (False, d)
        | Some st \<Rightarrow>
            let offers' = map (\<lambda>bo. if bo_id bo = p_offer_id \<and> bo_status bo = ''sent''
                                     then bo\<lparr>bo_status := st, bo_updated_at := now\<rparr>
                                     else bo) (booking_offers d);
                d1 = d\<lparr>booking_offers := offers'\<rparr>
            in
            if p_action = Some ''accept'' \<and> FOUND then
              let inserted = map (\<lambda>bo. \<lparr>bk_inquiry_id = bo_inquiry_id bo,
                                         bk_offer_id = bo_id bo,
                                         bk_status = ''confirmed'',
                                         bk_created_at = now,
                                         bk_updated_at = now\<rparr>)
                               (filter (\<lambda>bo. bo_id bo = p_offer_id) offers')
              in Inr (inserted \<noteq> [], d1\<lparr>bookings := bookings d @ inserted\<rparr>)
            else Inr (FOUND, d1))"

subsection \<open>Triggers on \<open>booking_offers\<close>\<close>

text \<open>
  The migration "Fix Status Enum Migration" recreates two row triggers on
  \<open>booking_offers\<close>. \<open>validate_offer_before_send\<close> runs \<open>validate_offer_for_send()\<close>
  \<open>BEFORE UPDATE\<close>, when its \<open>WHEN\<close> condition holds; \<open>update_inquiry_status_trigger\<close>
  runs \<open>update_inquiry_status_on_offer()\<close> \<open>AFTER UPDATE OF status\<close>.
\<close>

definition validate_offer_for_send ::
    "unified_status db \<Rightarrow> unified_status booking_offer
      \<Rightarrow> error + unified_status booking_offer" where
  "validate_offer_for_send d NEW =
     (if bo_status NEW = offer_sent then
        if \<not> list_ex (\<lambda>os. os_offer_id os = bo_id NEW \<and> os_actual_offer_cents os \<noteq> None)
               (offer_summaries d)
        then Inl (ValidationError ''Cannot send offer: actual_offer_cents must be set'')
        else Inr NEW
      else Inr NEW)"

definition validate_offer_before_send ::
    "unified_status db \<Rightarrow> unified_status booking_offer \<Rightarrow> unified_status booking_offer
      \<Rightarrow> error + unified_status booking_offer" where
  "validate_offer_before_send d OLD NEW =
     (if bo_status OLD \<noteq> offer_sent \<and> bo_status NEW = offer_sent
      then validate_offer_for_send d NEW
      else Inr NEW)"

text \<open>An \<open>UPDATE booking_offers SET ... WHERE ...\<close> under the \<open>BEFORE UPDATE\<close>
  trigger: every row the condition selects is replaced by what the trigger returns for
  the proposed row, and the first exception aborts the statement.\<close>

fun update_rows_before_send ::
    "unified_status db \<Rightarrow> (unified_status booking_offer \<Rightarrow> bool)
      \<Rightarrow> (unified_status booking_offer \<Rightarrow> unified_status booking_offer)
      \<Rightarrow> unified_status booking_offer list \<Rightarrow> error + unified_status booking_offer list" where
  "update_rows_before_send d cond set_cols [] = Inr []"
| "update_rows_before_send d cond set_cols (OLD # rest) =
     (if cond OLD then
        case validate_offer_before_send d OLD (set_cols OLD) of
          Inl e \<Rightarrow> Inl e
        | Inr NEW \<Rightarrow>
            (case update_rows_before_send d cond set_cols rest of
               Inl e \<Rightarrow> Inl e
             | Inr rest' \<Rightarrow> Inr (NEW # rest'))
      else
        case update_rows_before_send d cond set_cols rest of
          Inl e \<Rightarrow> Inl e
        | Inr rest' \<Rightarrow> Inr (OLD # rest'))"

definition update_booking_offers ::
    "unified_status db \<Rightarrow> (unified_status booking_offer \<Rightarrow> bool)
      \<Rightarrow> (unified_status booking_offer \<Rightarrow> unified_status booking_offer)
      \<Rightarrow> error + unified_status db" where
  "update_booking_offers d cond set_cols =
     (case update_rows_before_send d cond set_cols (booking_offers d) of
        Inl e \<Rightarrow> Inl e
      | Inr rows \<Rightarrow> Inr (d\<lparr>booking_offers := rows\<rparr>))"

definition set_inquiry_status ::
    "timestamptz \<Rightarrow> uuid \<Rightarrow> 'st \<Rightarrow> 'st db \<Rightarrow> 'st db" where
  "set_inquiry_status now inquiry_id st d =
     d\<lparr>booking_inquiries :=
         map (\<lambda>bi. if bi_id bi = inquiry_id
                    then bi\<lparr>bi_status := st, bi_updated_at := now\<rparr> else bi)
           (booking_inquiries d)\<rparr>"

definition update_inquiry_status_on_offer ::
    "timestamptz \<Rightarrow> unified_status db \<Rightarrow> unified_status booking_offer
      \<Rightarrow> unified_status booking_offer \<Rightarrow> unified_status db" where
  "update_inquiry_status_on_offer now d OLD NEW =
     (let d1 = (if bo_status NEW = offer_sent \<and> bo_status OLD = draft
                then set_inquiry_status now (bo_inquiry_id NEW) offer_sent d else d);
          d2 = (if bo_status NEW = accepted \<and> bo_status OLD = offer_sent
                then set_inquiry_status now (bo_inquiry_id NEW) accepted d1 else d1);
          d3 = (if bo_status NEW = rejected \<and> bo_status OLD = offer_sent
                then set_inquiry_status now (bo_inquiry_id NEW) offer_draft d2 else d2)
      in d3)"

text \<open>The coupling as the claim words it: the inquiry status that follows from a
  change of the offer status from \<open>old\<close> to \<open>new\<close>.\<close>

definition coupled_inquiry_status ::
    "unified_status \<Rightarrow> unified_status \<Rightarrow> unified_status \<Rightarrow> unified_status" where
  "coupled_inquiry_status old new current =
     (if old = draft \<and> new = offer_sent then offer_sent
      else if old = offer_sent \<and> new = accepted then accepted
      else if old = offer_sent \<and> new = rejected then offer_draft
      else current)"


subsection \<open>Sending: \<open>send_booking_offer\<close> with the row triggers it fires\<close>

text \<open>
  \<open>status_transition_trigger\<close> runs \<open>handle_status_transition()\<close>
  \<open>BEFORE UPDATE OF status ON booking_inquiries\<close>: the row of the table is handed to
  the trigger function and the row it returns is written.
\<close>

definition status_transition_trigger ::
    "session \<Rightarrow> timestamptz \<Rightarrow> unified_status booking_inquiry
      \<Rightarrow> unified_status booking_inquiry \<Rightarrow> error + unified_status booking_inquiry" where
  "status_transition_trigger s now OLD NEW =
     (case handle_status_transition s now
             \<lparr>status = bi_status OLD, valid_until = bi_valid_until OLD,
              updated_at = bi_updated_at OLD\<rparr>
             \<lparr>status = bi_status NEW, valid_until = bi_valid_until NEW,
              updated_at = bi_updated_at NEW\<rparr> of
        Inl e \<Rightarrow> Inl e
      | Inr row \<Rightarrow> Inr (NEW\<lparr>bi_status := status row, bi_valid_until := valid_until row,
                          bi_updated_at := updated_at row\<rparr>))"

text \<open>An \<open>UPDATE booking_inquiries SET status = ..., ... WHERE ...\<close> under that
  trigger.\<close>

fun update_inquiry_rows ::
    "session \<Rightarrow> timestamptz \<Rightarrow> (unified_status booking_inquiry \<Rightarrow> bool)
      \<Rightarrow> (unified_status booking_inquiry \<Rightarrow> unified_status booking_inquiry)
      \<Rightarrow> unified_status booking_inquiry list
      \<Rightarrow> error + unified_status booking_inquiry list" where
  "update_inquiry_rows s now cond set_cols [] = Inr []"
| "update_inquiry_rows s now cond set_cols (OLD # rest) =
     (if cond OLD then
        case status_transition_trigger s now OLD (set_cols OLD) of
          Inl e \<Rightarrow> Inl e
        | Inr NEW \<Rightarrow>
            (case update_inquiry_rows s now cond set_cols rest of
               Inl e \<Rightarrow> Inl e
             | Inr rest' \<Rightarrow> Inr (NEW # rest'))
      else
        case update_inquiry_rows s now cond set_cols rest of
          Inl e \<Rightarrow> Inl e
        | Inr rest' \<Rightarrow> Inr (OLD # rest'))"

definition update_booking_inquiries ::
    "session \<Rightarrow> timestamptz \<Rightarrow> unified_status db \<Rightarrow> (unified_status booking_inquiry \<Rightarrow> bool)
      \<Rightarrow> (unified_status booking_inquiry \<Rightarrow> unified_status booking_inquiry)
      \<Rightarrow> error + unified_status db" where
  "update_booking_inquiries s now d cond set_cols =
     (case update_inquiry_rows s now cond set_cols (booking_inquiries d) of
        Inl e \<Rightarrow> Inl e
      | Inr rows \<Rightarrow> Inr (d\<lparr>booking_inquiries := rows\<rparr>))"

text \<open>
  \<open>update_inquiry_status_trigger\<close> runs \<open>update_inquiry_status_on_offer()\<close>
  \<open>AFTER UPDATE OF status ON booking_offers\<close>, for each row. Here the three
  \<open>UPDATE\<close> statements of that function go through the trigger on
  \<open>booking_inquiries\<close>, so that each of them can raise.
\<close>

definition update_inquiry_status_trigger ::
    "session \<Rightarrow> timestamptz \<Rightarrow> unified_status db \<Rightarrow> unified_status booking_offer
      \<Rightarrow> unified_status booking_offer \<Rightarrow> error + unified_status db" where
  "update_inquiry_status_trigger s now d OLD NEW =
     (case (if bo_status NEW = offer_sent \<and> bo_status OLD = draft
            then update_booking_inquiries s now d (\<lambda>bi. bi_id bi = bo_inquiry_id NEW)
                   (\<lambda>bi. bi\<lparr>bi_status := offer_sent, bi_updated_at := now\<rparr>)
            else Inr d) of
        Inl e \<Rightarrow> Inl e
      | Inr d1 \<Rightarrow>
     (case (if bo_status NEW = accepted \<and> bo_status OLD = offer_sent
            then update_booking_inquiries s now d1 (\<lambda>bi. bi_id bi = bo_inquiry_id NEW)
                   (\<lambda>bi. bi\<lparr>bi_status := accepted, bi_updated_at := now\<rparr>)
            else Inr d1) of
        Inl e \<Rightarrow> Inl e
      | Inr d2 \<Rightarrow>
        (if bo_status NEW = rejected \<and> bo_status OLD = offer_sent
         then update_booking_inquiries s now d2 (\<lambda>bi. bi_id bi = bo_inquiry_id NEW)
                (\<lambda>bi. bi\<lparr>bi_status := offer_draft, bi_updated_at := now\<rparr>)
         else Inr d2)))"

fun after_update_of_status ::
    "session \<Rightarrow> timestamptz \<Rightarrow> (unified_status booking_offer \<times> unified_status booking_offer) list
      \<Rightarrow> unified_status db \<Rightarrow> error + unified_status db" where
  "after_update_of_status s now [] d = Inr d"
| "after_update_of_status s now ((OLD, NEW) # rest) d =
     (case update_inquiry_status_trigger s now d OLD NEW of
        Inl e \<Rightarrow> Inl e
      | Inr d' \<Rightarrow> after_update_of_status s now rest d')"

text \<open>
  An \<open>UPDATE booking_offers SET status = ..., ... WHERE ...\<close> with both row triggers
  of \<open>booking_offers\<close>: the rows pass the \<open>BEFORE UPDATE\<close> trigger and are written
  (\<open>update_booking_offers\<close>), then the \<open>AFTER\<close> trigger runs for each updated row,
  with the row before and the row written.
\<close>

definition update_booking_offers_status ::
    "session \<Rightarrow> timestamptz \<Rightarrow> unified_status db \<Rightarrow> (unified_status booking_offer \<Rightarrow> bool)
      \<Rightarrow> (unified_status booking_offer \<Rightarrow> unified_status booking_offer)
      \<Rightarrow> error + unified_status db" where
  "update_booking_offers_status s now d cond set_cols =
     (case update_booking_offers d cond set_cols of
        Inl e \<Rightarrow> Inl e
      | Inr d1 \<Rightarrow>
          after_update_of_status s now
            (map (\<lambda>OLD. (OLD, set_cols OLD)) (filter cond (booking_offers d))) d1)"

text \<open>
  \<open>send_booking_offer\<close> of the migration "Add Offer Workflow Handling". Its
  \<open>UPDATE\<close> of \<open>booking_offers\<close> fires \<open>validate_offer_before_send\<close> and
  \<open>update_inquiry_status_trigger\<close>; its \<open>UPDATE\<close> of \<open>booking_inquiries\<close>, like
  the one inside the trigger function, fires \<open>status_transition_trigger\<close>. The
  \<open>AFTER\<close> triggers on \<open>booking_inquiries\<close> only insert notifications and are not
  part of the model: \<open>notifications\<close> receives the row this function inserts.
\<close>

definition send_booking_offer ::
    "session \<Rightarrow> timestamptz \<Rightarrow> unified_status db \<Rightarrow> uuid
      \<Rightarrow> error + (bool \<times> unified_status db)" where
  "send_booking_offer s now d p_offer_id =
     (if \<not> is_administrator s then Inl PermissionDenied
      else
        case validate_offer_for_send_uuid d p_offer_id of
          Inl e \<Rightarrow> Inl e
        | Inr ok \<Rightarrow>
        let joined = offer_with_inquiry d p_offer_id;
            v_inquiry_id = map_option (\<lambda>(bo, bi). bo_inquiry_id bo) joined;
            v_trader_id = map_option (\<lambda>(bo, bi). bi_trader_id bi) joined
        in
        case update_booking_offers_status s now d
               (\<lambda>bo. bo_id bo = p_offer_id \<and> bo_status bo = draft)
               (\<lambda>bo. bo\<lparr>bo_status := offer_sent, bo_updated_at := now\<rparr>) of
          Inl e \<Rightarrow> Inl e
        | Inr d1 \<Rightarrow>
        case update_booking_inquiries s now d1
               (\<lambda>bi. Some (bi_id bi) = v_inquiry_id)
               (\<lambda>bi. bi\<lparr>bi_status := offer_sent, bi_updated_at := now\<rparr>) of
          Inl e \<Rightarrow> Inl e
        | Inr d2 \<Rightarrow>
        case v_trader_id of
          None \<Rightarrow> Inl (NotNullViolation ''user_id'')
        | Some trader_id \<Rightarrow>
            Inr (True,
                 d2\<lparr>notifications := notifications d2 @
                     [\<lparr>n_user_id = trader_id,
                       n_type = ''offer_sent'',
                       n_title = ''New Offer Available'',
                       n_message = ''A new offer is available for your inquiry'',
                       n_inquiry_id = v_inquiry_id\<rparr>]\<rparr>))"

subsection \<open>Space line totals\<close>









subsection \<open>Vocabulary for the statements\<close>

text \<open>A \<open>jsonb\<close> array argument that is null is not looped over: it counts as the
  empty array.\<close>

definition json_array :: "'a list option \<Rightarrow> 'a list" where
  "json_array p = (case p of None \<Rightarrow> [] | Some l \<Rightarrow> l)"

text \<open>The sums of the supplied \<open>offer_total_cents\<close>, an absent one counting 0.\<close>

definition spaces_total :: "space_json list \<Rightarrow> int" where
  "spaces_total l = sum_list (map (\<lambda>v. COALESCE (j_offer_total_cents v) 0) l)"

definition services_total :: "service_json list \<Rightarrow> int" where
  "services_total l = sum_list (map (\<lambda>v. COALESCE (js_offer_total_cents v) 0) l)"

text \<open>The rows built from the elements that carry their id.\<close>

definition space_rows_of :: "uuid \<Rightarrow> space_json list \<Rightarrow> booking_offer_space list" where
  "space_rows_of p l =
     concat (map (\<lambda>v. case j_space_id v of None \<Rightarrow> [] | Some i \<Rightarrow> [space_row p i v]) l)"

definition service_rows_of :: "uuid \<Rightarrow> service_json list \<Rightarrow> booking_offer_service list" where
  "service_rows_of p l =
     concat (map (\<lambda>v. case js_service_id v of None \<Rightarrow> [] | Some i \<Rightarrow> [service_row p i v]) l)"

definition term_rows_of :: "uuid \<Rightarrow> term_json list \<Rightarrow> booking_offer_term list" where
  "term_rows_of p l =
     concat (map (\<lambda>v. case (jt_term_type v, jt_description v) of
                         (Some t, Some x) \<Rightarrow> [\<lparr>bt_offer_id = p, bt_term_type = t,
                                                 bt_description = x\<rparr>]
                       | _ \<Rightarrow> []) l)"

text \<open>The sum of the allocated sizes of all space allocations of an offer, as the
  specification words the send condition.\<close>

definition sum_allocated :: "'st db \<Rightarrow> uuid \<Rightarrow> rat" where
  "sum_allocated d p_offer_id =
     sum_list (map bos_space_allocated_m2
       (filter (\<lambda>r. bos_offer_id r = p_offer_id) (booking_offer_spaces d)))"

text \<open>Elements that pass the checks of the loops.\<close>

definition space_given :: "space_json \<Rightarrow> bool" where
  "space_given v = (j_space_id v \<noteq> None)"

definition service_given :: "service_json \<Rightarrow> bool" where
  "service_given v = (js_service_id v \<noteq> None)"

definition term_given :: "term_json \<Rightarrow> bool" where
  "term_given v = (jt_term_type v \<noteq> None \<and> jt_description v \<noteq> None)"

definition space_known :: "uuid list \<Rightarrow> space_json \<Rightarrow> bool" where
  "space_known tbl v = (case j_space_id v of None \<Rightarrow> False | Some i \<Rightarrow> i \<in> set tbl)"

definition service_known :: "uuid list \<Rightarrow> service_json \<Rightarrow> bool" where
  "service_known tbl v = (case js_service_id v of None \<Rightarrow> False | Some i \<Rightarrow> i \<in> set tbl)"

text \<open>The booking row \<open>respond_to_offer\<close> inserts for an accepted offer.\<close>

definition booking_of :: "timestamptz \<Rightarrow> 'st booking_offer \<Rightarrow> booking" where
  "booking_of now bo = \<lparr>bk_inquiry_id = bo_inquiry_id bo, bk_offer_id = bo_id bo,
      bk_status = ''confirmed'', bk_created_at = now, bk_updated_at = now\<rparr>"

subsection \<open>Example states\<close>

text \<open>
  User 1 is an administrator, user 2 the trader of inquiry 10, user 3 another trader.
  Inquiry 10 asks for 50 square metres; offer 1 answers it with 60 square metres of
  space 20 at 300 cents, 90000 cents in all, and its summary has no actual figure yet.
\<close>

definition admin_session :: session where
  "admin_session = \<lparr>auth_uid = Some 1, user_roles = [(1, 7)], roles = [(7, ''administrator'')]\<rparr>"

definition trader_session :: session where
  "trader_session = \<lparr>auth_uid = Some 2, user_roles = [(1, 7)], roles = [(7, ''administrator'')]\<rparr>"

definition stranger_session :: session where
  "stranger_session = \<lparr>auth_uid = Some 3, user_roles = [(1, 7)], roles = [(7, ''administrator'')]\<rparr>"

definition example_offer :: "'st \<Rightarrow> 'st booking_offer" where
  "example_offer st = \<lparr>bo_id = 1, bo_inquiry_id = 10, bo_admin_id = Some 1, bo_status = st,
      bo_total_cost_cents = 90000, bo_valid_until = 500, bo_notes = None, bo_updated_at = 0\<rparr>"

definition example_space :: booking_offer_space where
  "example_space = \<lparr>bos_offer_id = 1, bos_space_id = 20, bos_space_allocated_m2 = 60,
      bos_price_per_m2_cents = 300, bos_offer_total_cents = 90000,
      bos_is_manual_price = False, bos_comments = None\<rparr>"

definition example_summary :: "int option \<Rightarrow> offer_summary" where
  "example_summary actual = \<lparr>os_offer_id = 1, os_inquiry_id = Some 10,
      os_quoted_price_cents = 80000, os_calculated_price_cents = Some 90000,
      os_actual_offer_cents = actual, os_space_total_cents = 90000,
      os_services_total_cents = 0, os_updated_at = 0\<rparr>"

definition example_db :: "'st \<Rightarrow> 'st \<Rightarrow> int option \<Rightarrow> 'st db" where
  "example_db inquiry_st offer_st actual =
     \<lparr>booking_inquiries = [\<lparr>bi_id = 10, bi_trader_id = 2, bi_status = inquiry_st,
                              bi_estimated_cost_cents = Some 80000,
                              bi_valid_until = None, bi_updated_at = 0\<rparr>],
      booking_inquiry_space_requests = [\<lparr>sr_inquiry_id = 10, sr_size_m2 = 50\<rparr>],
      booking_offers = [example_offer offer_st],
      booking_offer_spaces = [example_space],
      booking_offer_services = [],
      booking_offer_terms = [],
      offer_summaries = [example_summary actual],
      bookings = [],
      notifications = [],
      m_warehouse_spaces = [20],
      warehouse_services = [30]\<rparr>"


text \<open>Arguments for the calls: the allocation of offer 1 as the page sends it, a
  smaller one, and a quote-only service line that carries a total of 5000 cents.\<close>

definition example_space_json :: space_json where
  "example_space_json = \<lparr>j_space_id = Some 20, j_space_allocated_m2 = Some 60,
      j_price_per_m2_cents = Some 300, j_offer_total_cents = Some 90000,
      j_is_manual_price = Some False, j_comments = None\<rparr>"

definition small_space_json :: space_json where
  "small_space_json = \<lparr>j_space_id = Some 20, j_space_allocated_m2 = Some 10,
      j_price_per_m2_cents = Some 300, j_offer_total_cents = Some 15000,
      j_is_manual_price = Some False, j_comments = None\<rparr>"

definition quote_line :: service_json where
  "quote_line = \<lparr>js_service_id = Some 30, js_pricing_type = Some ask_quote,
      js_quantity = None, js_price_per_hour_cents = None, js_price_per_unit_cents = None,
      js_unit_type = None, js_fixed_price_cents = None, js_offer_total_cents = Some 5000,
      js_comments = None\<rparr>"

text \<open>States in which offer 1 can be sent: its summary has the actual figure 90000
  and inquiry 10 is \<open>offer_draft\<close>. In \<open>short_db\<close> the inquiry asks for 70 square
  metres instead of 50; in \<open>negative_db\<close> the offer has a second allocation row, of
  -20 square metres.\<close>

definition sendable_db :: "unified_status db" where
  "sendable_db = example_db offer_draft draft (Some 90000)"

definition short_db :: "unified_status db" where
  "short_db = sendable_db
                \<lparr>booking_inquiry_space_requests := [\<lparr>sr_inquiry_id = 10, sr_size_m2 = 70\<rparr>]\<rparr>"

definition negative_db :: "unified_status db" where
  "negative_db = sendable_db
                   \<lparr>booking_offer_spaces :=
                      [example_space, example_space\<lparr>bos_space_allocated_m2 := - 20\<rparr>]\<rparr>"

text \<open>A state of the first generation of \<open>offer_summaries\<close>: the summary of offer 1
  has no \<open>inquiry_id\<close> and the actual figure 90000.\<close>

definition first_generation_db :: "unified_status db" where
  "first_generation_db = (example_db under_review draft (Some 90000))
     \<lparr>offer_summaries := [(example_summary (Some 90000))\<lparr>os_inquiry_id := None\<rparr>]\<rparr>"



section \<open>Properties\<close>

subsection \<open>Status machine\<close>

lemma validate_admin:
  "validate_status_transition old new True = (old = new \<or> in_transition_table old new True)"
  by (cases old; cases new; simp add: in_transition_table_def admin_moves_def)

lemma validate_trader:
  "validate_status_transition old new False = (old = new \<or> in_transition_table old new False)"
  by (cases old; cases new; simp add: in_transition_table_def trader_moves_def)

text \<open>
  Claim C1. For every pair of statuses and either role, \<open>validate_status_transition\<close>
  returns true exactly when the two statuses are equal or the pair is a row of the
  specification's transition table for that role. The trigger function built on it
  raises the illegal-transition exception, naming the old and the new status, exactly
  for the pairs that are rejected, and then writes no row.
\<close>

theorem validate_status_transition_table:
  "validate_status_transition old new is_admin =
     (old = new \<or> in_transition_table old new is_admin)
   \<and> (handle_status_transition s now OLD NEW
          = Inl (InvalidTransition (status OLD) (status NEW)))
       = (\<not> (status OLD = status NEW
              \<or> in_transition_table (status OLD) (status NEW) (is_administrator s)))
   \<and> isl (handle_status_transition s now OLD NEW)
       = (\<not> (status OLD = status NEW
              \<or> in_transition_table (status OLD) (status NEW) (is_administrator s)))"
proof -
  have v: "\<And>a b r. validate_status_transition a b r = (a = b \<or> in_transition_table a b r)"
    subgoal for a b r by (cases r) (simp_all only: validate_admin validate_trader)
    done
  show ?thesis
    unfolding v [symmetric] by (simp add: handle_status_transition_def Let_def)
qed

theorem validate_status_transition_table_witness:
  "validate_status_transition offer_draft offer_sent True
   \<and> \<not> validate_status_transition offer_draft offer_sent False
   \<and> handle_status_transition
         \<lparr>auth_uid = Some 1, user_roles = [], roles = []\<rparr> 0
         \<lparr>status = offer_draft, valid_until = None, updated_at = 0\<rparr>
         \<lparr>status = offer_sent, valid_until = None, updated_at = 0\<rparr>
       = Inl (InvalidTransition offer_draft offer_sent)"
  using validate_status_transition_table [of offer_draft offer_sent True
      "\<lparr>auth_uid = Some 1, user_roles = [], roles = []\<rparr>" 0
      "\<lparr>status = offer_draft, valid_until = None, updated_at = 0\<rparr>"
      "\<lparr>status = offer_sent, valid_until = None, updated_at = 0\<rparr>"]
    validate_status_transition_table [of offer_draft offer_sent False
      "\<lparr>auth_uid = Some 1, user_roles = [], roles = []\<rparr>" 0
      "\<lparr>status = offer_draft, valid_until = None, updated_at = 0\<rparr>"
      "\<lparr>status = offer_sent, valid_until = None, updated_at = 0\<rparr>"]
  by (simp add: in_transition_table_def admin_moves_def trader_moves_def
      is_administrator_def)

text \<open>
  Claim C8. On every permitted transition the trigger function returns the row to be
  written: with \<open>valid_until\<close> set to the current time plus seven days when the new
  status is \<open>offer_sent\<close>, set to null when it is \<open>expired\<close>, and as the statement
  proposed it for every other new status. Timestamps count microseconds, so seven days
  are 7 * 24 * 60 * 60 * 1000000 = 604800000000 of them.
\<close>

theorem handle_status_transition_valid_until:
  assumes "validate_status_transition (status OLD) (status NEW) (is_administrator s)"
  shows "\<exists>row. handle_status_transition s now OLD NEW = Inr row
           \<and> status row = status NEW
           \<and> valid_until row =
                 (if status NEW = offer_sent then Some (now + 604800000000)
                  else if status NEW = expired then None
                  else valid_until NEW)"
  using assms
  by (cases "status NEW")
     (simp_all add: handle_status_transition_def interval_7_days_def Let_def)

theorem handle_status_transition_valid_until_witness:
  "validate_status_transition offer_draft offer_sent (is_administrator admin_session)
   \<and> (\<exists>row. handle_status_transition admin_session 1000
           \<lparr>status = offer_draft, valid_until = Some 5, updated_at = 0\<rparr>
           \<lparr>status = offer_sent, valid_until = Some 5, updated_at = 0\<rparr> = Inr row
         \<and> status row = offer_sent
         \<and> valid_until row = Some 604800001000)
   \<and> validate_status_transition expired expired (is_administrator trader_session)
   \<and> (\<exists>row. handle_status_transition trader_session 1000
           \<lparr>status = expired, valid_until = Some 5, updated_at = 0\<rparr>
           \<lparr>status = expired, valid_until = Some 5, updated_at = 0\<rparr> = Inr row
         \<and> status row = expired
         \<and> valid_until row = None)
   \<and> validate_status_transition submitted under_review (is_administrator admin_session)
   \<and> (\<exists>row. handle_status_transition admin_session 1000
           \<lparr>status = submitted, valid_until = Some 5, updated_at = 0\<rparr>
           \<lparr>status = under_review, valid_until = Some 5, updated_at = 0\<rparr> = Inr row
         \<and> status row = under_review
         \<and> valid_until row = Some 5)"
proof -
  have h1: "validate_status_transition
      (status \<lparr>status = offer_draft, valid_until = Some 5, updated_at = 0\<rparr>)
      (status \<lparr>status = offer_sent, valid_until = Some 5, updated_at = 0\<rparr>)
      (is_administrator admin_session)"
    by (simp add: is_administrator_def admin_session_def)
  have h2: "validate_status_transition
      (status \<lparr>status = expired, valid_until = Some 5, updated_at = 0\<rparr>)
      (status \<lparr>status = expired, valid_until = Some 5, updated_at = 0\<rparr>)
      (is_administrator trader_session)"
    by simp
  have h3: "validate_status_transition
      (status \<lparr>status = submitted, valid_until = Some 5, updated_at = 0\<rparr>)
      (status \<lparr>status = under_review, valid_until = Some 5, updated_at = 0\<rparr>)
      (is_administrator admin_session)"
    by (simp add: is_administrator_def admin_session_def)
  from handle_status_transition_valid_until [OF h1, of 1000]
    handle_status_transition_valid_until [OF h2, of 1000]
    handle_status_transition_valid_until [OF h3, of 1000] h1 h2 h3
  show ?thesis by simp
qed

subsection \<open>The send gate on the summary\<close>

lemma before_send_error:
  "validate_offer_before_send d OLD NEW = Inl e \<Longrightarrow>
     e = ValidationError ''Cannot send offer: actual_offer_cents must be set''"
  by (auto simp: validate_offer_before_send_def validate_offer_for_send_def split: if_splits)

lemma update_rows_before_send_error:
  "update_rows_before_send d cond set_cols rows = Inl e \<Longrightarrow>
     e = ValidationError ''Cannot send offer: actual_offer_cents must be set''"
proof (induction rows arbitrary: e)
  case Nil
  then show ?case by simp
next
  case (Cons OLD rest)
  then show ?case
    by (auto split: if_splits sum.splits dest: before_send_error)
qed

lemma update_rows_before_send_fails:
  assumes "OLD \<in> set rows" "cond OLD" "bo_status OLD \<noteq> offer_sent"
    "bo_status (set_cols OLD) = offer_sent" "bo_id (set_cols OLD) = bo_id OLD"
    "\<not> list_ex (\<lambda>os. os_offer_id os = bo_id OLD \<and> os_actual_offer_cents os \<noteq> None)
         (offer_summaries d)"
  shows "isl (update_rows_before_send d cond set_cols rows)"
  using assms(1)
proof (induction rows)
  case Nil
  then show ?case by simp
next
  case (Cons r rest)
  show ?case
  proof (cases "r = OLD")
    case True
    with assms(2-6) show ?thesis
      by (simp add: validate_offer_before_send_def validate_offer_for_send_def)
  next
    case False
    with Cons have "isl (update_rows_before_send d cond set_cols rest)" by simp
    then show ?thesis by (auto split: sum.splits)
  qed
qed

text \<open>
  Claim C2. Let an offer that is not yet \<open>offer_sent\<close> have no summary row with a
  non-null \<open>actual_offer_cents\<close>. Every \<open>UPDATE\<close> of \<open>booking_offers\<close> that selects
  the offer and proposes the status \<open>offer_sent\<close> for it raises the validation
  exception of the \<open>BEFORE UPDATE\<close> trigger, and the tables are as before.
\<close>

theorem send_without_actual_fails:
  assumes "OLD \<in> set (booking_offers d)" "cond OLD" "bo_status OLD \<noteq> offer_sent"
    "bo_status (set_cols OLD) = offer_sent" "bo_id (set_cols OLD) = bo_id OLD"
    "\<not> list_ex (\<lambda>os. os_offer_id os = bo_id OLD \<and> os_actual_offer_cents os \<noteq> None)
         (offer_summaries d)"
  shows "update_booking_offers d cond set_cols
           = Inl (ValidationError ''Cannot send offer: actual_offer_cents must be set'')
         \<and> state_after d id (update_booking_offers d cond set_cols) = d"
proof -
  have "isl (update_rows_before_send d cond set_cols (booking_offers d))"
    using assms by (rule update_rows_before_send_fails)
  then obtain e where e: "update_rows_before_send d cond set_cols (booking_offers d) = Inl e"
    by (cases "update_rows_before_send d cond set_cols (booking_offers d)") auto
  from update_rows_before_send_error [OF e] e show ?thesis
    by (simp add: update_booking_offers_def state_after_def)
qed

theorem send_without_actual_fails_witness:
  "example_offer draft \<in> set (booking_offers (example_db offer_draft draft None))
   \<and> bo_status (example_offer draft) \<noteq> offer_sent
   \<and> \<not> list_ex (\<lambda>os. os_offer_id os = bo_id (example_offer draft)
                      \<and> os_actual_offer_cents os \<noteq> None)
          (offer_summaries (example_db offer_draft draft None))
   \<and> update_booking_offers (example_db offer_draft draft None) (\<lambda>bo. bo_id bo = 1)
        (\<lambda>bo. bo\<lparr>bo_status := offer_sent\<rparr>)
      = Inl (ValidationError ''Cannot send offer: actual_offer_cents must be set'')
   \<and> state_after (example_db offer_draft draft None) id
        (update_booking_offers (example_db offer_draft draft None) (\<lambda>bo. bo_id bo = 1)
           (\<lambda>bo. bo\<lparr>bo_status := offer_sent\<rparr>))
      = example_db offer_draft draft None"
proof -
  let ?d = "example_db offer_draft draft None :: unified_status db"
  have h1: "example_offer draft \<in> set (booking_offers ?d)"
    by (simp add: example_db_def)
  have h2: "bo_id (example_offer draft :: unified_status booking_offer) = 1"
    by (simp add: example_offer_def)
  have h3: "bo_status (example_offer draft) \<noteq> offer_sent"
    by (simp add: example_offer_def)
  have h4: "bo_status ((example_offer draft)\<lparr>bo_status := offer_sent\<rparr>) = offer_sent"
    by simp
  have h5: "bo_id ((example_offer draft :: unified_status booking_offer)\<lparr>bo_status := offer_sent\<rparr>)
      = bo_id (example_offer draft :: unified_status booking_offer)"
    by simp
  have h6: "\<not> list_ex (\<lambda>os. os_offer_id os = bo_id (example_offer draft :: unified_status booking_offer)
                      \<and> os_actual_offer_cents os \<noteq> None) (offer_summaries ?d)"
    by (simp add: example_db_def example_summary_def)
  from send_without_actual_fails [of "example_offer draft" ?d "\<lambda>bo. bo_id bo = 1"
      "\<lambda>bo. bo\<lparr>bo_status := offer_sent\<rparr>", OF h1 h2 h3 h4 h5 h6] h1 h3 h6
  show ?thesis by (simp add: state_after_def)
qed

subsection \<open>Coupling of the inquiry status\<close>

text \<open>
  Claim C10. After the \<open>AFTER UPDATE OF status\<close> trigger function has run for a change
  of an offer from \<open>OLD\<close> to \<open>NEW\<close>, the status of the owning inquiry is
  \<open>offer_sent\<close> for draft to offer_sent, \<open>accepted\<close> for offer_sent to accepted,
  \<open>offer_draft\<close> for offer_sent to rejected, and what it was for every other change;
  no other inquiry changes its status.
\<close>

theorem inquiry_status_coupling:
  "map bi_status (booking_inquiries (update_inquiry_status_on_offer now d OLD NEW)) =
     map (\<lambda>bi. if bi_id bi = bo_inquiry_id NEW
                then coupled_inquiry_status (bo_status OLD) (bo_status NEW) (bi_status bi)
                else bi_status bi) (booking_inquiries d)
   \<and> map bi_id (booking_inquiries (update_inquiry_status_on_offer now d OLD NEW)) =
     map bi_id (booking_inquiries d)"
  by (auto simp: update_inquiry_status_on_offer_def Let_def coupled_inquiry_status_def
      set_inquiry_status_def comp_def)

theorem inquiry_status_coupling_witness:
  "map bi_status (booking_inquiries
      (update_inquiry_status_on_offer 7 (example_db offer_sent offer_sent (Some 90000))
         (example_offer offer_sent) (example_offer rejected))) = [offer_draft]
   \<and> map bi_status (booking_inquiries
      (update_inquiry_status_on_offer 7 (example_db under_review draft (Some 90000))
         (example_offer draft) (example_offer cancelled))) = [under_review]"
  using inquiry_status_coupling [of 7 "example_db offer_sent offer_sent (Some 90000)"
      "example_offer offer_sent" "example_offer rejected"]
    inquiry_status_coupling [of 7 "example_db under_review draft (Some 90000)"
      "example_offer draft" "example_offer cancelled"]
  by (simp add: example_db_def example_offer_def coupled_inquiry_status_def)

subsection \<open>Responding to an offer\<close>

lemma filter_id_after_update:
  "map (booking_of now) (filter (\<lambda>bo. bo_id bo = p)
      (map (\<lambda>bo. if bo_id bo = p \<and> bo_status bo = c
                 then bo\<lparr>bo_status := st, bo_updated_at := t\<rparr> else bo) rows))
   = map (booking_of now) (filter (\<lambda>bo. bo_id bo = p) rows)"
  by (induction rows) (auto simp: booking_of_def)

lemma filter_id_after_update_empty:
  "(filter (\<lambda>bo. bo_id bo = p)
      (map (\<lambda>bo. if bo_id bo = p \<and> bo_status bo = c
                 then bo\<lparr>bo_status := st, bo_updated_at := t\<rparr> else bo) rows) = [])
   = (filter (\<lambda>bo. bo_id bo = p) rows = [])"
  by (induction rows) auto

lemma found_filter_nonempty:
  "list_ex (\<lambda>bo. bo_id bo = p \<and> bo_status bo = c) rows \<Longrightarrow>
     filter (\<lambda>bo. bo_id bo = p) rows \<noteq> []"
  by (induction rows) auto

text \<open>
  Claim C9. With the action \<open>accept\<close> or \<open>reject\<close>: a caller who is not the trader of
  the inquiry behind the offer gets \<open>Permission denied\<close> and the tables are as before,
  whatever the status of the offer; when the owning trader accepts an offer that is
  \<open>sent\<close>, the call returns true, the offer is \<open>accepted\<close>, and a booking with status
  \<open>confirmed\<close>, carrying the offer's id and inquiry, is appended to \<open>bookings\<close>.
\<close>

theorem respond_to_offer_owner_only:
  assumes act: "p_action = Some ''accept'' \<or> p_action = Some ''reject''"
  shows "(\<not> owns_inquiry_of_offer s d p \<longrightarrow>
            respond_to_offer s now d p p_action = Inl PermissionDenied
            \<and> state_after d snd (respond_to_offer s now d p p_action) = d)
       \<and> (owns_inquiry_of_offer s d p \<and> p_action = Some ''accept''
            \<and> list_ex (\<lambda>bo. bo_id bo = p \<and> bo_status bo = ''sent'') (booking_offers d) \<longrightarrow>
            (\<exists>d'. respond_to_offer s now d p p_action = Inr (True, d')
               \<and> bookings d' = bookings d @
                    map (booking_of now) (filter (\<lambda>bo. bo_id bo = p) (booking_offers d))
               \<and> filter (\<lambda>bo. bo_id bo = p) (booking_offers d) \<noteq> []
               \<and> booking_offers d' =
                    map (\<lambda>bo. if bo_id bo = p \<and> bo_status bo = ''sent''
                               then bo\<lparr>bo_status := ''accepted'', bo_updated_at := now\<rparr>
                               else bo) (booking_offers d)))"
proof (intro conjI impI)
  assume "\<not> owns_inquiry_of_offer s d p"
  with act show "respond_to_offer s now d p p_action = Inl PermissionDenied"
    by (auto simp: respond_to_offer_def)
  then show "state_after d snd (respond_to_offer s now d p p_action) = d"
    by (simp add: state_after_def)
next
  assume h: "owns_inquiry_of_offer s d p \<and> p_action = Some ''accept''
      \<and> list_ex (\<lambda>bo. bo_id bo = p \<and> bo_status bo = ''sent'') (booking_offers d)"
  then have "list_ex (\<lambda>bo. bo_id bo = p \<and> bo_status bo = ''sent'') (booking_offers d)"
    by simp
  then have ne: "filter (\<lambda>bo. bo_id bo = p) (booking_offers d) \<noteq> []"
    by (rule found_filter_nonempty)
  have bk: "(\<lambda>bo. \<lparr>bk_inquiry_id = bo_inquiry_id bo, bk_offer_id = bo_id bo,
      bk_status = ''confirmed'', bk_created_at = now, bk_updated_at = now\<rparr>) = booking_of now"
    by (simp add: booking_of_def fun_eq_iff)
  from h ne show "\<exists>d'. respond_to_offer s now d p p_action = Inr (True, d')
               \<and> bookings d' = bookings d @
                    map (booking_of now) (filter (\<lambda>bo. bo_id bo = p) (booking_offers d))
               \<and> filter (\<lambda>bo. bo_id bo = p) (booking_offers d) \<noteq> []
               \<and> booking_offers d' =
                    map (\<lambda>bo. if bo_id bo = p \<and> bo_status bo = ''sent''
                               then bo\<lparr>bo_status := ''accepted'', bo_updated_at := now\<rparr>
                               else bo) (booking_offers d)"
    by (simp add: respond_to_offer_def Let_def bk filter_id_after_update
        filter_id_after_update_empty)
qed

theorem respond_to_offer_owner_only_witness:
  "\<not> owns_inquiry_of_offer stranger_session (example_db ''offer_sent'' ''sent'' (Some 90000)) 1
   \<and> respond_to_offer stranger_session 7 (example_db ''offer_sent'' ''sent'' (Some 90000)) 1
        (Some ''accept'') = Inl PermissionDenied
   \<and> owns_inquiry_of_offer trader_session (example_db ''offer_sent'' ''sent'' (Some 90000)) 1
   \<and> map_sum id (\<lambda>(r, d'). (r, bookings d'))
        (respond_to_offer trader_session 7 (example_db ''offer_sent'' ''sent'' (Some 90000)) 1
           (Some ''accept''))
      = Inr (True, [\<lparr>bk_inquiry_id = 10, bk_offer_id = 1, bk_status = ''confirmed'',
                      bk_created_at = 7, bk_updated_at = 7\<rparr>])"
  using respond_to_offer_owner_only [of "Some ''accept''" stranger_session
      "example_db ''offer_sent'' ''sent'' (Some 90000)" 1 7]
    respond_to_offer_owner_only [of "Some ''accept''" trader_session
      "example_db ''offer_sent'' ''sent'' (Some 90000)" 1 7]
  by (auto simp: example_db_def example_offer_def owns_inquiry_of_offer_def
      stranger_session_def trader_session_def booking_of_def)

subsection \<open>The loops over the allocation arrays\<close>

lemma save_spaces_loop_ok:
  "list_all space_given l \<Longrightarrow>
     save_spaces_loop p l rows t = Inr (rows @ space_rows_of p l, t + spaces_total l)"
  by (induction l arbitrary: rows t)
     (auto simp: space_given_def space_rows_of_def spaces_total_def)

lemma save_services_loop_ok:
  "list_all service_given l \<Longrightarrow>
     save_services_loop p l rows t = Inr (rows @ service_rows_of p l, t + services_total l)"
  by (induction l arbitrary: rows t)
     (auto simp: service_given_def service_rows_of_def services_total_def)

lemma terms_loop_ok:
  "list_all term_given l \<Longrightarrow> terms_loop p l rows = Inr (rows @ term_rows_of p l)"
  by (induction l arbitrary: rows)
     (auto simp: term_given_def term_rows_of_def)

lemma update_spaces_loop_ok:
  "list_all (space_known tbl) l \<Longrightarrow>
     update_spaces_loop tbl p l rows t = Inr (rows @ space_rows_of p l, t + spaces_total l)"
  by (induction l arbitrary: rows t)
     (auto simp: space_known_def space_rows_of_def spaces_total_def list_ex_iff
        split: option.splits)

lemma update_services_loop_ok:
  "list_all (service_known tbl) l \<Longrightarrow>
     update_services_loop tbl p l rows t
       = Inr (rows @ service_rows_of p l, t + services_total l)"
  by (induction l arbitrary: rows t)
     (auto simp: service_known_def service_rows_of_def services_total_def list_ex_iff
        split: option.splits)

lemma spaces_arg:
  "list_all space_given (json_array p_spaces) \<Longrightarrow>
   (case p_spaces of None \<Rightarrow> Inr (rows, 0) | Some l \<Rightarrow> save_spaces_loop p l rows 0)
     = Inr (rows @ space_rows_of p (json_array p_spaces), spaces_total (json_array p_spaces))"
  by (cases p_spaces)
     (simp_all add: json_array_def save_spaces_loop_ok space_rows_of_def spaces_total_def)

lemma services_arg:
  "list_all service_given (json_array p_services) \<Longrightarrow>
   (case p_services of None \<Rightarrow> Inr (rows, 0) | Some l \<Rightarrow> save_services_loop p l rows 0)
     = Inr (rows @ service_rows_of p (json_array p_services),
            services_total (json_array p_services))"
  by (cases p_services)
     (simp_all add: json_array_def save_services_loop_ok service_rows_of_def services_total_def)

lemma terms_arg:
  "list_all term_given (json_array p_terms) \<Longrightarrow>
   (case p_terms of None \<Rightarrow> Inr rows | Some l \<Rightarrow> terms_loop p l rows)
     = Inr (rows @ term_rows_of p (json_array p_terms))"
  by (cases p_terms) (simp_all add: json_array_def terms_loop_ok term_rows_of_def)

lemma update_spaces_arg:
  "list_all (space_known tbl) (json_array p_spaces) \<Longrightarrow>
   (case p_spaces of None \<Rightarrow> Inr (rows, 0) | Some l \<Rightarrow> update_spaces_loop tbl p l rows 0)
     = Inr (rows @ space_rows_of p (json_array p_spaces), spaces_total (json_array p_spaces))"
  by (cases p_spaces)
     (simp_all add: json_array_def update_spaces_loop_ok space_rows_of_def spaces_total_def)

lemma update_services_arg:
  "list_all (service_known tbl) (json_array p_services) \<Longrightarrow>
   (case p_services of None \<Rightarrow> Inr (rows, 0)
    | Some l \<Rightarrow> update_services_loop tbl p l rows 0)
     = Inr (rows @ service_rows_of p (json_array p_services),
            services_total (json_array p_services))"
  by (cases p_services)
     (simp_all add: json_array_def update_services_loop_ok service_rows_of_def
        services_total_def)

lemma filter_space_rows_of:
  "filter (\<lambda>r. bos_offer_id r = p) (space_rows_of p l) = space_rows_of p l"
  by (induction l) (auto simp: space_rows_of_def space_row_def split: option.splits)

lemma filter_service_rows_of:
  "filter (\<lambda>r. bsv_offer_id r = p) (service_rows_of p l) = service_rows_of p l"
  by (induction l) (auto simp: service_rows_of_def service_row_def split: option.splits)

lemma filter_term_rows_of:
  "filter (\<lambda>r. bt_offer_id r = p) (term_rows_of p l) = term_rows_of p l"
  by (induction l) (auto simp: term_rows_of_def split: option.splits)

lemma filter_filter_neq: "filter (\<lambda>r. f r = p) (filter (\<lambda>r. f r \<noteq> p) xs) = []"
  by (induction xs) auto

lemma list_ex_after_summary_update:
  "list_ex (\<lambda>os. os_offer_id os = p) rows \<Longrightarrow>
   list_ex (\<lambda>os. os_offer_id os = p)
     (map (\<lambda>os. if os_offer_id os = p
                then os\<lparr>os_calculated_price_cents := a, os_actual_offer_cents := b,
                        os_space_total_cents := c, os_services_total_cents := e,
                        os_updated_at := t\<rparr>
                else os) rows)"
  by (induction rows) auto

lemma upsert_summary_has:
  "list_ex (\<lambda>os. os_offer_id os = p) (upsert_summary now p q st svt actual rows)"
  by (simp add: upsert_summary_def list_ex_after_summary_update)

lemma upsert_summary_fields:
  "list_all (\<lambda>os. os_offer_id os = p \<longrightarrow>
                (os_actual_offer_cents os = actual
                 \<and> os_calculated_price_cents os = Some (st + svt)
                 \<and> os_space_total_cents os = st \<and> os_services_total_cents os = svt))
     (upsert_summary now p q st svt actual rows)"
  by (auto simp: upsert_summary_def list_all_iff list_ex_iff)

subsection \<open>Replacing the lines of an offer\<close>

text \<open>
  Claim C5, as stated, fails: \<open>update_booking_offer\<close> does not read the status of the
  offer. Offer 1 of the example is \<open>offer_sent\<close>; the call by the administrator
  returns true and the one allocation row of the offer is replaced.
\<close>

theorem update_sent_offer_counterexample:
  "bo_status (example_offer offer_sent) = offer_sent
   \<and> booking_offer_spaces (example_db offer_sent offer_sent (Some 90000)) = [example_space]
   \<and> map_sum id fst
        (update_booking_offer admin_session 7 (example_db offer_sent offer_sent (Some 90000)) 1
           (Some 15000) (Some 900) None (Some [small_space_json]) None None) = Inr True
   \<and> booking_offer_spaces
        (state_after (example_db offer_sent offer_sent (Some 90000)) snd
           (update_booking_offer admin_session 7
              (example_db offer_sent offer_sent (Some 90000)) 1
              (Some 15000) (Some 900) None (Some [small_space_json]) None None))
      = [space_row 1 20 small_space_json]
   \<and> space_row 1 20 small_space_json \<noteq> example_space"
  by (simp add: update_booking_offer_def example_db_def example_offer_def example_space_def
      example_summary_def small_space_json_def admin_session_def is_administrator_def
      offer_with_inquiry_def upsert_summary_def state_after_def space_row_def COALESCE_def
      Let_def)

text \<open>
  Claim C5, amended. \<open>update_booking_offer\<close> makes no test of the lifecycle phase:
  called by an administrator for an existing offer in any status, with a total cost
  and an expiry, known spaces and services and complete terms, it returns true; the
  status of every offer is as before, the allocation rows and terms of the offer are
  exactly those built from the arguments, and the summary of the offer carries the
  new totals, with the supplied total cost as its actual figure.
\<close>

theorem update_booking_offer_any_status:
  assumes "is_administrator s" "list_ex (\<lambda>bo. bo_id bo = p) (booking_offers d)"
    "p_total_cost_cents = Some c" "p_valid_until = Some u"
    "list_all (space_known (m_warehouse_spaces d)) (json_array p_spaces)"
    "list_all (service_known (warehouse_services d)) (json_array p_services)"
    "list_all term_given (json_array p_terms)"
  shows "\<exists>d'. update_booking_offer s now d p p_total_cost_cents p_valid_until p_notes
              p_spaces p_services p_terms = Inr (True, d')
           \<and> map bo_status (booking_offers d') = map bo_status (booking_offers d)
           \<and> filter (\<lambda>r. bos_offer_id r = p) (booking_offer_spaces d')
               = space_rows_of p (json_array p_spaces)
           \<and> filter (\<lambda>r. bsv_offer_id r = p) (booking_offer_services d')
               = service_rows_of p (json_array p_services)
           \<and> filter (\<lambda>r. bt_offer_id r = p) (booking_offer_terms d')
               = term_rows_of p (json_array p_terms)
           \<and> list_ex (\<lambda>os. os_offer_id os = p) (offer_summaries d')
           \<and> list_all (\<lambda>os. os_offer_id os = p \<longrightarrow>
                (os_actual_offer_cents os = Some c
                 \<and> os_calculated_price_cents os =
                     Some (spaces_total (json_array p_spaces)
                           + services_total (json_array p_services))
                 \<and> os_space_total_cents os = spaces_total (json_array p_spaces)
                 \<and> os_services_total_cents os = services_total (json_array p_services)))
               (offer_summaries d')"
  using assms
  by (simp add: update_booking_offer_def Let_def update_spaces_arg update_services_arg
      terms_arg filter_space_rows_of filter_service_rows_of filter_term_rows_of
      filter_filter_neq upsert_summary_has upsert_summary_fields comp_def if_distrib
      cong: if_cong)

theorem update_booking_offer_any_status_witness:
  "is_administrator admin_session
   \<and> list_ex (\<lambda>bo. bo_id bo = 1)
        (booking_offers (example_db offer_sent offer_sent (Some 90000)))
   \<and> list_all (space_known (m_warehouse_spaces (example_db offer_sent offer_sent (Some 90000))))
        (json_array (Some [small_space_json]))
   \<and> (\<exists>d'. update_booking_offer admin_session 7
              (example_db offer_sent offer_sent (Some 90000)) 1
              (Some 15000) (Some 900) None (Some [small_space_json]) None None = Inr (True, d')
           \<and> map bo_status (booking_offers d') = [offer_sent]
           \<and> filter (\<lambda>r. bos_offer_id r = 1) (booking_offer_spaces d')
               = [space_row 1 20 small_space_json])"
proof -
  let ?d = "example_db offer_sent offer_sent (Some 90000) :: unified_status db"
  have h1: "is_administrator admin_session"
    by (simp add: admin_session_def is_administrator_def)
  have h2: "list_ex (\<lambda>bo. bo_id bo = 1) (booking_offers ?d)"
    by (simp add: example_db_def example_offer_def)
  have h3: "list_all (space_known (m_warehouse_spaces ?d)) (json_array (Some [small_space_json]))"
    by (simp add: example_db_def json_array_def space_known_def small_space_json_def)
  have h4: "list_all (service_known (warehouse_services ?d)) (json_array None)"
    by (simp add: json_array_def)
  have h5: "list_all term_given (json_array None)"
    by (simp add: json_array_def)
  from update_booking_offer_any_status [where s = admin_session and p = 1 and d = ?d
      and p_total_cost_cents = "Some 15000" and c = 15000 and p_valid_until = "Some 900"
      and u = 900 and p_spaces = "Some [small_space_json]" and p_services = None
      and p_terms = None and now = 7 and p_notes = None, OF h1 h2 refl refl h3 h4 h5]
    h1 h2 h3
  show ?thesis
    by (auto simp: example_db_def example_offer_def json_array_def space_rows_of_def
        small_space_json_def)
qed

subsection \<open>Service lines in the totals\<close>

lemma list_ex_unpriced_filter:
  "list_ex (\<lambda>sv. bsv_offer_id sv = p \<and> unpriced_service sv)
      (filter (\<lambda>sv. bsv_pricing_type sv \<noteq> ask_quote) rows)
   = list_ex (\<lambda>sv. bsv_offer_id sv = p \<and> unpriced_service sv) rows"
  by (induction rows) (auto simp: unpriced_service_def)

text \<open>
  Claim C6, as stated, fails: \<open>save_booking_offer\<close> adds the supplied
  \<open>offer_total_cents\<close> of every service line to the totals and never reads the
  pricing type. A single quote-only line that carries 5000 cents makes
  \<open>services_total_cents\<close> and \<open>calculated_price_cents\<close> 5000.
\<close>

theorem ask_quote_contributes_counterexample:
  "js_pricing_type quote_line = Some ask_quote
   \<and> map_sum id fst
        (save_booking_offer admin_session 7 2 (example_db under_review draft None) 10
           (Some 5000) (Some 900) None (Some []) (Some [quote_line]) None) = Inr 2
   \<and> os_services_total_cents (last (offer_summaries
        (state_after (example_db under_review draft None) snd
           (save_booking_offer admin_session 7 2 (example_db under_review draft None) 10
              (Some 5000) (Some 900) None (Some []) (Some [quote_line]) None)))) = 5000
   \<and> os_calculated_price_cents (last (offer_summaries
        (state_after (example_db under_review draft None) snd
           (save_booking_offer admin_session 7 2 (example_db under_review draft None) 10
              (Some 5000) (Some 900) None (Some []) (Some [quote_line]) None)))) = Some 5000"
  by (simp add: save_booking_offer_def example_db_def quote_line_def admin_session_def
      is_administrator_def state_after_def service_row_def COALESCE_def NULLIF_def Let_def)

text \<open>
  Claim C6, amended. A service line enters \<open>services_total_cents\<close> and
  \<open>calculated_price_cents\<close> with its supplied \<open>offer_total_cents\<close> (0 when absent),
  whatever its pricing type, and with nothing else: quantity and the per-hour,
  per-unit and fixed prices are not read. So a quote-only line contributes nothing
  exactly when its \<open>offer_total_cents\<close> is absent or 0. Quote-only lines never block
  a send: \<open>validate_offer_for_send(p_offer_id)\<close> gives the same result with and
  without them.
\<close>

theorem service_lines_in_totals:
  assumes "is_administrator s" "p_total_cost_cents = Some c" "p_valid_until = Some u"
    "list_all space_given (json_array p_spaces)"
    "list_all service_given (json_array p_services)"
    "list_all term_given (json_array p_terms)"
  shows "(\<exists>d' os. save_booking_offer s now v_offer_id d p_inquiry_id p_total_cost_cents
              p_valid_until p_notes p_spaces p_services p_terms = Inr (v_offer_id, d')
           \<and> offer_summaries d' = offer_summaries d @ [os]
           \<and> os_offer_id os = v_offer_id
           \<and> os_space_total_cents os = spaces_total (json_array p_spaces)
           \<and> os_services_total_cents os = services_total (json_array p_services)
           \<and> os_calculated_price_cents os =
               Some (spaces_total (json_array p_spaces)
                     + services_total (json_array p_services)))
       \<and> validate_offer_for_send_uuid
            (d\<lparr>booking_offer_services :=
                 filter (\<lambda>sv. bsv_pricing_type sv \<noteq> ask_quote) (booking_offer_services d)\<rparr>) p
          = validate_offer_for_send_uuid d p"
proof
  from assms
  show "\<exists>d' os. save_booking_offer s now v_offer_id d p_inquiry_id p_total_cost_cents
              p_valid_until p_notes p_spaces p_services p_terms = Inr (v_offer_id, d')
           \<and> offer_summaries d' = offer_summaries d @ [os]
           \<and> os_offer_id os = v_offer_id
           \<and> os_space_total_cents os = spaces_total (json_array p_spaces)
           \<and> os_services_total_cents os = services_total (json_array p_services)
           \<and> os_calculated_price_cents os =
               Some (spaces_total (json_array p_spaces)
                     + services_total (json_array p_services))"
    by (simp add: save_booking_offer_def Let_def spaces_arg services_arg terms_arg)
  show "validate_offer_for_send_uuid
            (d\<lparr>booking_offer_services :=
                 filter (\<lambda>sv. bsv_pricing_type sv \<noteq> ask_quote) (booking_offer_services d)\<rparr>) p
          = validate_offer_for_send_uuid d p"
    by (simp add: validate_offer_for_send_uuid_def Let_def list_ex_unpriced_filter
        total_allocated_def total_requested_def offer_inquiry_id_def)
qed

theorem service_lines_in_totals_witness:
  "is_administrator admin_session
   \<and> list_all service_given (json_array (Some [quote_line, quote_line]))
   \<and> (\<exists>d' os. save_booking_offer admin_session 7 2 (example_db under_review draft None) 10
              (Some 5000) (Some 900) None (Some [example_space_json])
              (Some [quote_line, quote_line]) None = Inr (2, d')
           \<and> offer_summaries d' = [example_summary None, os]
           \<and> os_space_total_cents os = 90000
           \<and> os_services_total_cents os = 10000
           \<and> os_calculated_price_cents os = Some 100000)"
proof -
  have h1: "is_administrator admin_session"
    by (simp add: admin_session_def is_administrator_def)
  have h2: "list_all space_given (json_array (Some [example_space_json]))"
    by (simp add: json_array_def space_given_def example_space_json_def)
  have h3: "list_all service_given (json_array (Some [quote_line, quote_line]))"
    by (simp add: json_array_def service_given_def quote_line_def)
  have h4: "list_all term_given (json_array None)"
    by (simp add: json_array_def)
  from service_lines_in_totals [where s = admin_session and p_total_cost_cents = "Some 5000"
      and c = 5000 and p_valid_until = "Some 900" and u = 900
      and p_spaces = "Some [example_space_json]"
      and p_services = "Some [quote_line, quote_line]" and p_terms = None and now = 7
      and v_offer_id = 2 and d = "example_db under_review draft None" and p_inquiry_id = 10
      and p_notes = None, OF h1 refl refl h2 h3 h4] h1 h3
  show ?thesis
    by (auto simp: example_db_def json_array_def spaces_total_def services_total_def
        quote_line_def example_space_json_def COALESCE_def)
qed


subsection \<open>Sending an offer\<close>

lemma validate_error_kind:
  "validate_offer_for_send_uuid d p = Inl e \<Longrightarrow> \<exists>msg. e = ValidationError msg"
  by (auto simp: validate_offer_for_send_uuid_def Let_def split: if_splits)

lemma validate_fails_when_short:
  "total_allocated d p < total_requested d (offer_inquiry_id d p)
   \<Longrightarrow> isl (validate_offer_for_send_uuid d p)"
  by (simp add: validate_offer_for_send_uuid_def Let_def)

text \<open>The first revision of \<open>send_booking_offer\<close> checks the role and nothing else.\<close>

lemma send_booking_offer_first_unchecked:
  "is_administrator s \<Longrightarrow>
     map_sum id fst (send_booking_offer_first s now d p)
       = Inr (list_ex (\<lambda>bo. bo_id bo = p \<and> bo_status bo = ''draft'') (booking_offers d))"
  by (simp add: send_booking_offer_first_def Let_def)

lemma find_of_filter: "filter P xs = [x] \<Longrightarrow> find P xs = Some x"
  by (induction xs) (auto split: if_splits)

lemma only_row_of_filter: "filter P xs = [x] \<Longrightarrow> r \<in> set xs \<Longrightarrow> P r \<Longrightarrow> r = x"
proof -
  assume a: "filter P xs = [x]" and b: "r \<in> set xs" and c: "P r"
  have "r \<in> set (filter P xs)" using b c by simp
  then have "r \<in> set [x]" unfolding a .
  then show "r = x" by simp
qed

text \<open>The \<open>BEFORE UPDATE\<close> trigger lets the rows of an offer pass when the offer has
  a summary with an actual figure.\<close>

lemma update_rows_before_send_ok:
  assumes "list_ex (\<lambda>os. os_offer_id os = p \<and> os_actual_offer_cents os \<noteq> None)
             (offer_summaries d)"
  shows "update_rows_before_send d (\<lambda>bo. bo_id bo = p \<and> bo_status bo = draft)
            (\<lambda>bo. bo\<lparr>bo_status := offer_sent, bo_updated_at := now\<rparr>) rows
         = Inr (map (\<lambda>bo. if bo_id bo = p \<and> bo_status bo = draft
                           then bo\<lparr>bo_status := offer_sent, bo_updated_at := now\<rparr>
                           else bo) rows)"
  using assms
  by (induction rows)
     (simp_all add: validate_offer_before_send_def validate_offer_for_send_def)

text \<open>The trigger on \<open>booking_inquiries\<close> lets an administrator move the rows of an
  inquiry to \<open>offer_sent\<close> when they are \<open>offer_draft\<close> or \<open>offer_sent\<close>, and
  stamps them.\<close>

lemma update_inquiry_rows_to_offer_sent:
  assumes "is_administrator s"
    "\<forall>r\<in>set rows. bi_id r = i \<longrightarrow> bi_status r = offer_draft \<or> bi_status r = offer_sent"
  shows "update_inquiry_rows s now (\<lambda>bi. bi_id bi = i)
            (\<lambda>bi. bi\<lparr>bi_status := offer_sent, bi_updated_at := now\<rparr>) rows
         = Inr (map (\<lambda>bi. if bi_id bi = i
                           then bi\<lparr>bi_status := offer_sent,
                                   bi_valid_until := Some (now + interval_7_days),
                                   bi_updated_at := now\<rparr>
                           else bi) rows)"
  using assms(2)
proof (induction rows)
  case Nil
  then show ?case by simp
next
  case (Cons r rest)
  then have rest: "update_inquiry_rows s now (\<lambda>bi. bi_id bi = i)
            (\<lambda>bi. bi\<lparr>bi_status := offer_sent, bi_updated_at := now\<rparr>) rest
         = Inr (map (\<lambda>bi. if bi_id bi = i
                           then bi\<lparr>bi_status := offer_sent,
                                   bi_valid_until := Some (now + interval_7_days),
                                   bi_updated_at := now\<rparr>
                           else bi) rest)"
    by simp
  show ?case
  proof (cases "bi_id r = i")
    case True
    with Cons.prems have "bi_status r = offer_draft \<or> bi_status r = offer_sent" by simp
    with True rest assms(1) show ?thesis
      by (auto simp: status_transition_trigger_def handle_status_transition_def Let_def)
  next
    case False
    with rest show ?thesis by simp
  qed
qed

lemma statuses_after_stamp:
  "map bi_status (map (\<lambda>bi. if bi_id bi = i
                           then bi\<lparr>bi_status := offer_sent, bi_valid_until := v,
                                   bi_updated_at := t\<rparr>
                           else bi) rows)
   = map (\<lambda>bi. if bi_id bi = i then offer_sent else bi_status bi) rows"
  by (induction rows) auto

lemma stamped_rows_sent:
  "\<forall>r\<in>set (map (\<lambda>bi. if bi_id bi = i
                           then bi\<lparr>bi_status := offer_sent, bi_valid_until := v,
                                   bi_updated_at := t\<rparr>
                           else bi) rows).
      bi_id r = i \<longrightarrow> bi_status r = offer_draft \<or> bi_status r = offer_sent"
  by (induction rows) auto

lemma stamp_twice:
  "map (\<lambda>bi. if bi_id bi = i
             then bi\<lparr>bi_status := offer_sent, bi_valid_until := v, bi_updated_at := t\<rparr>
             else bi)
     (map (\<lambda>bi. if bi_id bi = i
               then bi\<lparr>bi_status := offer_sent, bi_valid_until := v, bi_updated_at := t\<rparr>
               else bi) rows)
   = map (\<lambda>bi. if bi_id bi = i
               then bi\<lparr>bi_status := offer_sent, bi_valid_until := v, bi_updated_at := t\<rparr>
               else bi) rows"
  by (induction rows) auto

text \<open>The send of a draft offer whose inquiry is \<open>offer_draft\<close> or \<open>offer_sent\<close>,
  step by step through the triggers.\<close>

lemma send_booking_offer_steps:
  assumes adm: "is_administrator s"
    and v: "validate_offer_for_send_uuid d p = Inr True"
    and bo: "filter (\<lambda>r. bo_id r = p) (booking_offers d) = [bo]"
    and dr: "bo_status bo = draft"
    and bi: "filter (\<lambda>r. bi_id r = bo_inquiry_id bo) (booking_inquiries d) = [bi]"
    and st: "bi_status bi = offer_draft \<or> bi_status bi = offer_sent"
    and sm: "list_ex (\<lambda>os. os_offer_id os = p \<and> os_actual_offer_cents os \<noteq> None)
               (offer_summaries d)"
  shows "send_booking_offer s now d p =
     Inr (True,
          d\<lparr>booking_offers :=
              map (\<lambda>r. if bo_id r = p \<and> bo_status r = draft
                        then r\<lparr>bo_status := offer_sent, bo_updated_at := now\<rparr> else r)
                (booking_offers d),
            booking_inquiries :=
              map (\<lambda>r. if bi_id r = bo_inquiry_id bo
                        then r\<lparr>bi_status := offer_sent,
                               bi_valid_until := Some (now + interval_7_days),
                               bi_updated_at := now\<rparr>
                        else r) (booking_inquiries d),
            notifications := notifications d @
              [\<lparr>n_user_id = bi_trader_id bi,
                n_type = ''offer_sent'',
                n_title = ''New Offer Available'',
                n_message = ''A new offer is available for your inquiry'',
                n_inquiry_id = Some (bo_inquiry_id bo)\<rparr>]\<rparr>)"
proof -
  let ?i = "bo_inquiry_id bo"
  let ?cond = "\<lambda>r. bo_id r = p \<and> bo_status r = draft"
  let ?set = "\<lambda>r. r\<lparr>bo_status := offer_sent, bo_updated_at := now\<rparr>"
  let ?offers = "map (\<lambda>r. if bo_id r = p \<and> bo_status r = draft
                        then r\<lparr>bo_status := offer_sent, bo_updated_at := now\<rparr> else r)
                   (booking_offers d)"
  let ?stamp = "\<lambda>r. if bi_id r = ?i
                     then r\<lparr>bi_status := offer_sent,
                            bi_valid_until := Some (now + interval_7_days),
                            bi_updated_at := now\<rparr>
                     else r"
  let ?d1 = "d\<lparr>booking_offers := ?offers\<rparr>"
  let ?d2 = "?d1\<lparr>booking_inquiries := map ?stamp (booking_inquiries d)\<rparr>"
  have j: "offer_with_inquiry d p = Some (bo, bi)"
    by (simp add: offer_with_inquiry_def find_of_filter [OF bo] find_of_filter [OF bi])
  have all: "\<forall>r\<in>set (booking_inquiries d). bi_id r = ?i \<longrightarrow>
               bi_status r = offer_draft \<or> bi_status r = offer_sent"
    using only_row_of_filter [OF bi] st by blast
  have before: "update_booking_offers d ?cond ?set = Inr ?d1"
    by (simp add: update_booking_offers_def update_rows_before_send_ok [OF sm])
  have fired: "filter ?cond (booking_offers d) = [bo]"
  proof -
    have "filter ?cond (booking_offers d)
            = filter (\<lambda>r. bo_status r = draft) (filter (\<lambda>r. bo_id r = p) (booking_offers d))"
      by (simp add: conj_commute)
    with bo dr show ?thesis by simp
  qed
  have coupled: "update_inquiry_status_trigger s now ?d1 bo (?set bo) = Inr ?d2"
    using dr update_inquiry_rows_to_offer_sent [OF adm all, of now]
    by (simp add: update_inquiry_status_trigger_def update_booking_inquiries_def)
  have after: "update_booking_offers_status s now d ?cond ?set = Inr ?d2"
    by (simp add: update_booking_offers_status_def before fired coupled)
  have sent: "\<forall>r\<in>set (map ?stamp (booking_inquiries d)). bi_id r = ?i \<longrightarrow>
               bi_status r = offer_draft \<or> bi_status r = offer_sent"
    by (rule stamped_rows_sent)
  have again: "update_booking_inquiries s now ?d2 (\<lambda>r. bi_id r = ?i)
                 (\<lambda>r. r\<lparr>bi_status := offer_sent, bi_updated_at := now\<rparr>) = Inr ?d2"
    using update_inquiry_rows_to_offer_sent [OF adm sent, of now]
    by (simp add: update_booking_inquiries_def stamp_twice)
  show ?thesis
    using adm v
    by (simp add: send_booking_offer_def j after again)
qed

lemma member_of_filter: "filter P xs = [x] \<Longrightarrow> x \<in> set xs \<and> P x"
proof -
  assume a: "filter P xs = [x]"
  have "x \<in> set (filter P xs)" unfolding a by simp
  then show ?thesis by simp
qed

text \<open>
  Claim C4, as stated, fails twice. No revision of \<open>send_booking_offer\<close> and no trigger
  writes \<open>valid_until\<close> of the offer: in \<open>sendable_db\<close> the allocation (60) covers the
  request (50), the administrator sends offer 1 at time 1000, the call returns true and
  the offer is \<open>offer_sent\<close>, but its \<open>valid_until\<close> is still the 500 stored with
  the draft, not 1000 plus seven days. And the check sums the positive allocations
  only: with the rows 60 and -20 the sum of all allocated sizes (40) is less than the
  request (50), yet the send succeeds.
\<close>

theorem send_booking_offer_counterexample:
  "total_requested sendable_db (Some 10) \<le> sum_allocated sendable_db 1
   \<and> map_sum id fst (send_booking_offer admin_session 1000 sendable_db 1) = Inr True
   \<and> map bo_status (booking_offers
        (state_after sendable_db snd (send_booking_offer admin_session 1000 sendable_db 1)))
      = [offer_sent]
   \<and> map bo_valid_until (booking_offers
        (state_after sendable_db snd (send_booking_offer admin_session 1000 sendable_db 1)))
      = [500]
   \<and> (500 :: int) \<noteq> 1000 + 604800000000
   \<and> sum_allocated negative_db 1 < total_requested negative_db (Some 10)
   \<and> map_sum id fst (send_booking_offer admin_session 1000 negative_db 1) = Inr True"
  by (simp add: send_booking_offer_def validate_offer_for_send_uuid_def total_allocated_def
      sum_allocated_def total_requested_def offer_inquiry_id_def offer_with_inquiry_def
      update_booking_offers_status_def update_booking_offers_def
      validate_offer_before_send_def validate_offer_for_send_def
      update_inquiry_status_trigger_def update_booking_inquiries_def
      status_transition_trigger_def handle_status_transition_def
      negative_db_def sendable_db_def example_db_def example_offer_def example_space_def
      example_summary_def admin_session_def is_administrator_def state_after_def Let_def)

text \<open>
  Claim C4, amended. Called by an administrator, \<open>send_booking_offer\<close> fails with a
  validation exception, the tables unchanged, whenever the sum of the positive
  allocated sizes of the offer is strictly less than the total size the inquiry
  requests. When that sum is greater or equal and the other conditions of a send
  hold, the call returns true, the offer is \<open>offer_sent\<close> and so is its inquiry, and
  the \<open>valid_until\<close> of the offer is as stored. The other conditions are those of
  the validation (a positive allocation, no unpriced service, a positive total cost)
  and those of the triggers the two updates fire: the offer is the one row with its id
  and is \<open>draft\<close>, its summary has an actual figure, and its inquiry is the one row
  with its id and is \<open>offer_draft\<close> or already \<open>offer_sent\<close>, the statuses from
  which the status machine lets an administrator enter \<open>offer_sent\<close>.
\<close>

theorem send_booking_offer_allocation_check:
  assumes adm: "is_administrator s"
  shows "(total_allocated d p < total_requested d (offer_inquiry_id d p) \<longrightarrow>
            (\<exists>msg. send_booking_offer s now d p = Inl (ValidationError msg))
            \<and> state_after d snd (send_booking_offer s now d p) = d)
       \<and> (total_requested d (offer_inquiry_id d p) \<le> total_allocated d p
          \<and> list_ex (\<lambda>r. bos_offer_id r = p \<and> bos_space_allocated_m2 r > 0)
               (booking_offer_spaces d)
          \<and> \<not> list_ex (\<lambda>sv. bsv_offer_id sv = p \<and> unpriced_service sv)
                 (booking_offer_services d)
          \<and> filter (\<lambda>r. bo_id r = p) (booking_offers d) = [bo]
          \<and> bo_status bo = draft
          \<and> 0 < bo_total_cost_cents bo
          \<and> list_ex (\<lambda>os. os_offer_id os = p \<and> os_actual_offer_cents os \<noteq> None)
               (offer_summaries d)
          \<and> filter (\<lambda>r. bi_id r = bo_inquiry_id bo) (booking_inquiries d) = [bi]
          \<and> (bi_status bi = offer_draft \<or> bi_status bi = offer_sent) \<longrightarrow>
            (\<exists>d'. send_booking_offer s now d p = Inr (True, d')
               \<and> map bo_status (booking_offers d')
                   = map (\<lambda>r. if bo_id r = p then offer_sent else bo_status r)
                       (booking_offers d)
               \<and> map bo_valid_until (booking_offers d') = map bo_valid_until (booking_offers d)
               \<and> map bi_status (booking_inquiries d')
                   = map (\<lambda>r. if bi_id r = bo_inquiry_id bo then offer_sent else bi_status r)
                       (booking_inquiries d)))"
proof (intro conjI impI)
  assume short: "total_allocated d p < total_requested d (offer_inquiry_id d p)"
  then have "isl (validate_offer_for_send_uuid d p)" by (rule validate_fails_when_short)
  then obtain e where e: "validate_offer_for_send_uuid d p = Inl e"
    by (cases "validate_offer_for_send_uuid d p") auto
  with validate_error_kind obtain msg where "e = ValidationError msg" by blast
  with e adm show "\<exists>msg. send_booking_offer s now d p = Inl (ValidationError msg)"
    by (simp add: send_booking_offer_def)
  then show "state_after d snd (send_booking_offer s now d p) = d"
    by (auto simp: state_after_def)
next
  assume ok: "total_requested d (offer_inquiry_id d p) \<le> total_allocated d p
          \<and> list_ex (\<lambda>r. bos_offer_id r = p \<and> bos_space_allocated_m2 r > 0)
               (booking_offer_spaces d)
          \<and> \<not> list_ex (\<lambda>sv. bsv_offer_id sv = p \<and> unpriced_service sv)
                 (booking_offer_services d)
          \<and> filter (\<lambda>r. bo_id r = p) (booking_offers d) = [bo]
          \<and> bo_status bo = draft
          \<and> 0 < bo_total_cost_cents bo
          \<and> list_ex (\<lambda>os. os_offer_id os = p \<and> os_actual_offer_cents os \<noteq> None)
               (offer_summaries d)
          \<and> filter (\<lambda>r. bi_id r = bo_inquiry_id bo) (booking_inquiries d) = [bi]
          \<and> (bi_status bi = offer_draft \<or> bi_status bi = offer_sent)"
  then have bo: "filter (\<lambda>r. bo_id r = p) (booking_offers d) = [bo]"
    and dr: "bo_status bo = draft"
    and bi: "filter (\<lambda>r. bi_id r = bo_inquiry_id bo) (booking_inquiries d) = [bi]"
    and st: "bi_status bi = offer_draft \<or> bi_status bi = offer_sent"
    and sm: "list_ex (\<lambda>os. os_offer_id os = p \<and> os_actual_offer_cents os \<noteq> None)
               (offer_summaries d)"
    by simp_all
  from ok have ne: "filter (\<lambda>r. bos_offer_id r = p \<and> bos_space_allocated_m2 r > 0)
                   (booking_offer_spaces d) \<noteq> []"
    by (auto simp: list_ex_iff filter_empty_conv)
  from member_of_filter [OF bo] ok
  have cost: "list_ex (\<lambda>r. bo_id r = p \<and> bo_total_cost_cents r > 0) (booking_offers d)"
    by (auto simp: list_ex_iff)
  from ok ne cost have v: "validate_offer_for_send_uuid d p = Inr True"
    by (simp add: validate_offer_for_send_uuid_def Let_def)
  have drafts: "\<forall>r\<in>set (booking_offers d). bo_id r = p \<longrightarrow> bo_status r = draft"
    using only_row_of_filter [OF bo] dr by blast
  then have statuses:
    "map (\<lambda>r. bo_status (if bo_id r = p \<and> bo_status r = draft
                         then r\<lparr>bo_status := offer_sent, bo_updated_at := now\<rparr> else r))
       (booking_offers d)
     = map (\<lambda>r. if bo_id r = p then offer_sent else bo_status r) (booking_offers d)"
    by (intro map_cong [OF refl]) auto
  have untils:
    "map (\<lambda>r. bo_valid_until (if bo_id r = p \<and> bo_status r = draft
                         then r\<lparr>bo_status := offer_sent, bo_updated_at := now\<rparr> else r))
       (booking_offers d)
     = map bo_valid_until (booking_offers d)"
    by (intro map_cong [OF refl]) auto
  from send_booking_offer_steps [OF adm v bo dr bi st sm, of now] statuses untils
  show "\<exists>d'. send_booking_offer s now d p = Inr (True, d')
               \<and> map bo_status (booking_offers d')
                   = map (\<lambda>r. if bo_id r = p then offer_sent else bo_status r)
                       (booking_offers d)
               \<and> map bo_valid_until (booking_offers d') = map bo_valid_until (booking_offers d)
               \<and> map bi_status (booking_inquiries d')
                   = map (\<lambda>r. if bi_id r = bo_inquiry_id bo then offer_sent else bi_status r)
                       (booking_inquiries d)"
    by (simp add: comp_def statuses_after_stamp [unfolded comp_def])
qed

theorem send_booking_offer_allocation_check_witness:
  "is_administrator admin_session
   \<and> total_allocated short_db 1 < total_requested short_db (offer_inquiry_id short_db 1)
   \<and> (\<exists>msg. send_booking_offer admin_session 1000 short_db 1 = Inl (ValidationError msg))
   \<and> total_requested sendable_db (offer_inquiry_id sendable_db 1)
       \<le> total_allocated sendable_db 1
   \<and> filter (\<lambda>r. bo_id r = 1) (booking_offers sendable_db) = [example_offer draft]
   \<and> list_ex (\<lambda>os. os_offer_id os = 1 \<and> os_actual_offer_cents os \<noteq> None)
        (offer_summaries sendable_db)
   \<and> map bi_status (booking_inquiries sendable_db) = [offer_draft]
   \<and> (\<exists>d'. send_booking_offer admin_session 1000 sendable_db 1 = Inr (True, d')
          \<and> map bo_status (booking_offers d') = [offer_sent]
          \<and> map bo_valid_until (booking_offers d') = [500]
          \<and> map bi_status (booking_inquiries d') = [offer_sent])"
proof -
  let ?bi = "\<lparr>bi_id = 10, bi_trader_id = 2, bi_status = offer_draft,
              bi_estimated_cost_cents = Some 80000, bi_valid_until = None,
              bi_updated_at = 0\<rparr> :: unified_status booking_inquiry"
  have h: "is_administrator admin_session"
    by (simp add: admin_session_def is_administrator_def)
  have short: "total_allocated short_db 1 < total_requested short_db (offer_inquiry_id short_db 1)"
    by (simp add: short_db_def sendable_db_def example_db_def example_offer_def
        example_space_def total_allocated_def total_requested_def offer_inquiry_id_def)
  have ok: "total_requested sendable_db (offer_inquiry_id sendable_db 1)
        \<le> total_allocated sendable_db 1
      \<and> list_ex (\<lambda>r. bos_offer_id r = 1 \<and> bos_space_allocated_m2 r > 0)
           (booking_offer_spaces sendable_db)
      \<and> \<not> list_ex (\<lambda>sv. bsv_offer_id sv = 1 \<and> unpriced_service sv)
             (booking_offer_services sendable_db)
      \<and> filter (\<lambda>r. bo_id r = 1) (booking_offers sendable_db) = [example_offer draft]
      \<and> bo_status (example_offer draft :: unified_status booking_offer) = draft
      \<and> 0 < bo_total_cost_cents (example_offer draft :: unified_status booking_offer)
      \<and> list_ex (\<lambda>os. os_offer_id os = 1 \<and> os_actual_offer_cents os \<noteq> None)
           (offer_summaries sendable_db)
      \<and> filter (\<lambda>r. bi_id r = bo_inquiry_id (example_offer draft :: unified_status booking_offer))
           (booking_inquiries sendable_db) = [?bi]
      \<and> (bi_status ?bi = offer_draft \<or> bi_status ?bi = offer_sent)"
    by (simp add: sendable_db_def example_db_def example_offer_def example_space_def
        example_summary_def total_allocated_def total_requested_def offer_inquiry_id_def)
  from send_booking_offer_allocation_check [where s = admin_session and d = short_db
      and p = 1 and bo = "example_offer draft" and bi = ?bi and now = 1000, OF h]
    send_booking_offer_allocation_check [where s = admin_session and d = sendable_db
      and p = 1 and bo = "example_offer draft" and bi = ?bi and now = 1000, OF h]
    h short ok
  show ?thesis
    by (auto simp: sendable_db_def example_db_def example_offer_def example_summary_def)
qed

subsection \<open>The actual figure of a new draft\<close>

text \<open>
  Claim C7, as stated, fails: \<open>save_booking_offer\<close>, the function that creates a
  draft, writes the supplied total cost into \<open>actual_offer_cents\<close> of the fresh
  summary. Called with a total cost of 90000 on a state of the summary table it writes
  to, it creates offer 2 as a draft whose summary has the actual figure 90000, not
  null.
\<close>

theorem save_booking_offer_actual_counterexample:
  "map_sum id fst
     (save_booking_offer admin_session 7 2 first_generation_db 10
        (Some 90000) (Some 900) None (Some [example_space_json]) None None) = Inr 2
   \<and> bo_status (last (booking_offers
        (state_after first_generation_db snd
           (save_booking_offer admin_session 7 2 first_generation_db 10
              (Some 90000) (Some 900) None (Some [example_space_json]) None None)))) = draft
   \<and> os_offer_id (last (offer_summaries
        (state_after first_generation_db snd
           (save_booking_offer admin_session 7 2 first_generation_db 10
              (Some 90000) (Some 900) None (Some [example_space_json]) None None)))) = 2
   \<and> os_actual_offer_cents (last (offer_summaries
        (state_after first_generation_db snd
           (save_booking_offer admin_session 7 2 first_generation_db 10
              (Some 90000) (Some 900) None (Some [example_space_json]) None None))))
      = Some 90000"
  by (simp add: save_booking_offer_def first_generation_db_def example_db_def
      example_space_json_def admin_session_def is_administrator_def state_after_def
      space_row_def COALESCE_def Let_def)

text \<open>
  Claim C7, amended. Every successful call of \<open>save_booking_offer\<close> creates the offer
  as a draft and persists a fresh summary whose actual figure is the total cost
  supplied with the call. That figure is never null: called by an administrator with
  a null total cost the function fails on the \<open>NOT NULL\<close> column of the offer. So
  the actual figure is set by the administrator from the creation of the draft on.
\<close>

theorem save_booking_offer_actual_is_total_cost:
  assumes "is_administrator s" "p_valid_until = Some u"
    "list_all space_given (json_array p_spaces)"
    "list_all service_given (json_array p_services)"
    "list_all term_given (json_array p_terms)"
  shows "(\<exists>d' bo os. save_booking_offer s now v_offer_id d p_inquiry_id (Some c)
              p_valid_until p_notes p_spaces p_services p_terms = Inr (v_offer_id, d')
           \<and> booking_offers d' = booking_offers d @ [bo]
           \<and> bo_id bo = v_offer_id \<and> bo_status bo = draft
           \<and> offer_summaries d' = offer_summaries d @ [os]
           \<and> os_offer_id os = v_offer_id
           \<and> os_actual_offer_cents os = Some c)
       \<and> save_booking_offer s now v_offer_id d p_inquiry_id None
              p_valid_until p_notes p_spaces p_services p_terms
          = Inl (NotNullViolation ''total_cost_cents'')"
  using assms
  by (simp add: save_booking_offer_def Let_def spaces_arg services_arg terms_arg)

theorem save_booking_offer_actual_is_total_cost_witness:
  "is_administrator admin_session
   \<and> list_all space_given (json_array (Some [example_space_json]))
   \<and> (\<exists>d' bo os. save_booking_offer admin_session 7 2 first_generation_db 10 (Some 90000)
              (Some 900) None (Some [example_space_json]) None None = Inr (2, d')
           \<and> booking_offers d' = booking_offers first_generation_db @ [bo]
           \<and> bo_id bo = 2 \<and> bo_status bo = draft
           \<and> offer_summaries d' = offer_summaries first_generation_db @ [os]
           \<and> os_offer_id os = 2
           \<and> os_actual_offer_cents os = Some 90000)
   \<and> save_booking_offer admin_session 7 2 first_generation_db 10 None
        (Some 900) None (Some [example_space_json]) None None
      = Inl (NotNullViolation ''total_cost_cents'')"
proof -
  have h1: "is_administrator admin_session"
    by (simp add: admin_session_def is_administrator_def)
  have h2: "list_all space_given (json_array (Some [example_space_json]))"
    by (simp add: json_array_def space_given_def example_space_json_def)
  have h3: "list_all service_given (json_array None)"
    by (simp add: json_array_def)
  have h4: "list_all term_given (json_array None)"
    by (simp add: json_array_def)
  from save_booking_offer_actual_is_total_cost [where s = admin_session
      and p_valid_until = "Some 900" and u = 900 and p_spaces = "Some [example_space_json]"
      and p_services = None and p_terms = None and now = 7 and v_offer_id = 2
      and d = first_generation_db and p_inquiry_id = 10 and c = 90000 and p_notes = None,
      OF h1 refl h2 h3 h4] h1 h2
  show ?thesis by simp
qed

subsection \<open>Days of an inquiry and space line totals\<close>







end
